theory Spec2Isabelle
  imports Complex_Main "HOL-Library.Char_ord" "HOL-Library.List_Lexorder" "HOL-Library.AList"
begin

section \<open>The COVID-19 daily-report import (scripts/importLocalData.ts)\<close>

text \<open>
  The script lists the CSV files of a fixed directory, wipes three tables, processes the
  files one after the other (parsing the report date out of the file name, aggregating the
  rows in memory, inserting the detail rows in batches) and finally writes one
  global-stats row per date and one country-stats row per (date, country).

  Conventions of this embedding.
  \<^item> Strings are \<open>string\<close> (lists of 8-bit characters): file names and field values are
    taken to be ASCII, where a JavaScript code unit and a character coincide.
  \<^item> JavaScript numbers holding integers (results of \<open>parseInt\<close> and their sums) are
    \<open>int\<close>: the model is exact, the program is exact up to \<open>2^53\<close>.
  \<^item> JavaScript numbers holding fractions (results of \<open>parseFloat\<close>) are \<open>real\<close>:
    the value of the double. \<open>parseFloat\<close> is a builtin of the platform and is a
    parameter \<open>pf\<close> of the model, \<open>None\<close> standing for \<open>NaN\<close>. The addition and the
    division of doubles, which round, are parameters too (\<open>fadd\<close>, \<open>fdiv\<close>): nothing is
    assumed of them, so what is proved holds of the rounded operations as of the exact
    ones. Comparing a double with 0 is exact. Infinities are not modelled.
  \<^item> A \<open>Map\<close> is an association list in insertion order; \<open>Map.set\<close> on a present key
    keeps its position (\<open>AList.update\<close>).
  \<^item> The database is three lists of rows in insertion order. Columns the database
    fills in by itself (\<open>id\<close>, \<open>createdAt\<close>, \<open>updatedAt\<close>) are not part of a row.
    Database calls are taken to succeed (the connection is up, values fit their columns).
\<close>

subsection \<open>File names and report dates\<close>

definition is_digit :: "char \<Rightarrow> bool" where
  "is_digit c = (CHR ''0'' \<le> c \<and> c \<le> CHR ''9'')"

definition digit_val :: "char \<Rightarrow> nat" where
  "digit_val c = of_char c - of_char CHR ''0''"

text \<open>The value of a string of decimal digits, most significant digit first.\<close>

definition digits_val :: "string \<Rightarrow> nat" where
  "digits_val s = foldl (\<lambda>n c. 10 * n + digit_val c) 0 s"

text \<open>\<open>file.endsWith('.csv')\<close>.\<close>

definition endsWith :: "string \<Rightarrow> string \<Rightarrow> bool" where
  "endsWith s suffix =
     (length suffix \<le> length s \<and> drop (length s - length suffix) s = suffix)"

text \<open>
  A JavaScript \<open>Date\<close> built from a date-only ISO text is midnight UTC of that day, or
  the invalid date. Only the calendar day matters to this program.
\<close>

datatype Date = InvalidDate | UTCDate nat nat nat

definition is_leap :: "nat \<Rightarrow> bool" where
  "is_leap y = (y mod 400 = 0 \<or> (y mod 4 = 0 \<and> 0 < y mod 100))"

definition days_in_month :: "nat \<Rightarrow> nat \<Rightarrow> nat" where
  "days_in_month y m =
     (if m = 2 then (if is_leap y then 29 else 28)
      else if m = 4 \<or> m = 6 \<or> m = 9 \<or> m = 11 then 30 else 31)"

text \<open>
  The day that Node's engine makes of year, month and day read from a date-only text:
  the month must be 1 to 12 and the day 1 to 31; a day past the end of its month rolls
  over into the next month (the 30th of February is the 1st or 2nd of March). December
  has 31 days, so the year never changes.
\<close>

definition make_day :: "nat \<Rightarrow> nat \<Rightarrow> nat \<Rightarrow> Date" where
  "make_day y m d =
     (if 1 \<le> m \<and> m \<le> 12 \<and> 1 \<le> d \<and> d \<le> 31
      then (if d \<le> days_in_month y m then UTCDate y m d
            else UTCDate y (m + 1) (d - days_in_month y m))
      else InvalidDate)"

text \<open>
  \<open>new Date(text)\<close> for a text of the form \<open>YYYY-MM-DD\<close>, the only form this program
  builds a report date from (in \<open>parseDate\<close> and again from the date key in step 6).
\<close>

fun new_Date :: "string \<Rightarrow> Date" where
  "new_Date [y1, y2, y3, y4, h1, m1, m2, h2, d1, d2] =
     (if is_digit y1 \<and> is_digit y2 \<and> is_digit y3 \<and> is_digit y4 \<and> h1 = CHR ''-'' \<and>
         is_digit m1 \<and> is_digit m2 \<and> h2 = CHR ''-'' \<and> is_digit d1 \<and> is_digit d2
      then make_day (digits_val [y1, y2, y3, y4]) (digits_val [m1, m2]) (digits_val [d1, d2])
      else InvalidDate)"
| "new_Date _ = InvalidDate"

text \<open>
  The regular expression \<open>/(\d{2})-(\d{2})-(\d{4})\.csv/\<close> matched at the start of
  a string: the three captured groups.
\<close>

fun match_here :: "string \<Rightarrow> (string \<times> string \<times> string) option" where
  "match_here (m1 # m2 # h1 # d1 # d2 # h2 # y1 # y2 # y3 # y4 # p # c # s # v # rest) =
     (if is_digit m1 \<and> is_digit m2 \<and> h1 = CHR ''-'' \<and> is_digit d1 \<and> is_digit d2 \<and>
         h2 = CHR ''-'' \<and> is_digit y1 \<and> is_digit y2 \<and> is_digit y3 \<and> is_digit y4 \<and>
         p = CHR ''.'' \<and> c = CHR ''c'' \<and> s = CHR ''s'' \<and> v = CHR ''v''
      then Some ([m1, m2], [d1, d2], [y1, y2, y3, y4]) else None)"
| "match_here _ = None"

text \<open>\<open>filename.match(...)\<close>: the expression is not anchored, the leftmost match wins.\<close>

fun regex_match :: "string \<Rightarrow> (string \<times> string \<times> string) option" where
  "regex_match [] = None"
| "regex_match (c # cs) =
     (case match_here (c # cs) of Some g \<Rightarrow> Some g | None \<Rightarrow> regex_match cs)"

datatype error =
    InvalidFileName string
  | RangeError
  | ReadError string
  | DirectoryNotFound

text \<open>\<open>parseDate\<close>: throws on a name without the pattern.\<close>

definition parseDate :: "string \<Rightarrow> error + Date" where
  "parseDate filename =
     (case regex_match filename of
        Some (month, day, year) \<Rightarrow> Inr (new_Date (year @ ''-'' @ month @ ''-'' @ day))
      | None \<Rightarrow> Inl (InvalidFileName filename))"

text \<open>
  \<open>toISOString\<close> throws a \<open>RangeError\<close> on the invalid date; otherwise the text is
  \<open>YYYY-MM-DDT00:00:00.000Z\<close> (years run from 0 to 9999 here, being read from four
  digits).
\<close>

definition digit_char :: "nat \<Rightarrow> char" where
  "digit_char n = ''0123456789'' ! (n mod 10)"

definition pad2 :: "nat \<Rightarrow> string" where
  "pad2 n = [digit_char (n div 10), digit_char n]"

definition pad4 :: "nat \<Rightarrow> string" where
  "pad4 n = [digit_char (n div 1000), digit_char (n div 100), digit_char (n div 10), digit_char n]"

fun toISOString :: "Date \<Rightarrow> error + string" where
  "toISOString InvalidDate = Inl RangeError"
| "toISOString (UTCDate y m d) =
     Inr (pad4 y @ ''-'' @ pad2 m @ ''-'' @ pad2 d @ ''T00:00:00.000Z'')"

text \<open>\<open>iso.split('T')[0]\<close>: the text before the first \<open>T\<close>.\<close>

definition split_T_0 :: "string \<Rightarrow> string" where
  "split_T_0 isoText = takeWhile (\<lambda>c. c \<noteq> CHR ''T'') isoText"

text \<open>Chronological order of two dates (the invalid date is before nothing).\<close>

fun date_less :: "Date \<Rightarrow> Date \<Rightarrow> bool" where
  "date_less (UTCDate y1 m1 d1) (UTCDate y2 m2 d2) =
     (y1 < y2 \<or> (y1 = y2 \<and> (m1 < m2 \<or> (m1 = m2 \<and> d1 < d2))))"
| "date_less _ _ = False"

text \<open>
  Step 2 of \<open>importDailyReports\<close>:
  \<open>fs.readdirSync(CSV_DIR).filter(file => file.endsWith('.csv')).sort()\<close>.
  The default \<open>sort\<close> compares strings code unit by code unit.
\<close>

definition list_csv_files :: "string list \<Rightarrow> string list" where
  "list_csv_files entries = sort (filter (\<lambda>file. endsWith file ''.csv'') entries)"

text \<open>The report dates of a list of files, in the order of the list.\<close>

definition report_dates :: "string list \<Rightarrow> (error + Date) list" where
  "report_dates files = map parseDate files"

fun ascending_dates :: "(error + Date) list \<Rightarrow> bool" where
  "ascending_dates (Inr a # Inr b # rest) = (date_less a b \<and> ascending_dates (Inr b # rest))"
| "ascending_dates (Inl e # rest) = False"
| "ascending_dates (Inr a # Inl e # rest) = False"
| "ascending_dates [Inr a] = True"
| "ascending_dates [] = True"

subsection \<open>Field coercions\<close>

text \<open>
  A parsed record (\<open>DailyReportRow\<close>): the parser returns one object per line, keyed by the
  trimmed header names, with text values; a column the file does not have is undefined.
\<close>

type_synonym DailyReportRow = "string \<Rightarrow> string option"

text \<open>\<open>a || b\<close> on two optional texts: undefined and the empty text are falsy.\<close>

definition js_or :: "string option \<Rightarrow> string option \<Rightarrow> string option" where
  "js_or a b = (case a of None \<Rightarrow> b | Some s \<Rightarrow> if s = [] then b else Some s)"

definition parseValue :: "string option \<Rightarrow> string option \<Rightarrow> string option" where
  "parseValue v defaultValue =
     (case v of None \<Rightarrow> defaultValue | Some s \<Rightarrow> if s = [] then defaultValue else Some s)"

text \<open>
  The builtin \<open>parseInt\<close> without a radix: leading white space is skipped, a sign is
  read, a \<open>0x\<close> prefix selects base 16, then the longest run of digits is read and
  anything after it is ignored; no digit at all gives \<open>NaN\<close> (\<open>None\<close>).
\<close>

definition is_space :: "char \<Rightarrow> bool" where
  "is_space c = (c \<in> set [CHR 0x09, CHR 0x0A, CHR 0x0B, CHR 0x0C, CHR 0x0D, CHR 0x20])"

definition radix_digit :: "nat \<Rightarrow> char \<Rightarrow> nat option" where
  "radix_digit radix c =
     (let v = (if CHR ''0'' \<le> c \<and> c \<le> CHR ''9'' then Some (of_char c - of_char CHR ''0'')
               else if CHR ''a'' \<le> c \<and> c \<le> CHR ''z'' then Some (of_char c - of_char CHR ''a'' + 10)
               else if CHR ''A'' \<le> c \<and> c \<le> CHR ''Z'' then Some (of_char c - of_char CHR ''A'' + 10)
               else None)
      in case v of None \<Rightarrow> None | Some n \<Rightarrow> if n < radix then Some n else None)"

definition radix_val :: "nat \<Rightarrow> string \<Rightarrow> int" where
  "radix_val radix ds = int (foldl (\<lambda>n c. radix * n + the (radix_digit radix c)) 0 ds)"

definition parseInt :: "string \<Rightarrow> int option" where
  "parseInt str =
     (let s1 = dropWhile is_space str;
          sign = (case s1 of c # _ \<Rightarrow> if c = CHR ''-'' then - 1 else 1 | [] \<Rightarrow> (1::int));
          s2 = (case s1 of c # r \<Rightarrow> if c = CHR ''-'' \<or> c = CHR ''+'' then r else s1 | [] \<Rightarrow> s1);
          hex = (case s2 of z # x # _ \<Rightarrow> z = CHR ''0'' \<and> (x = CHR ''x'' \<or> x = CHR ''X'') | _ \<Rightarrow> False);
          radix = (if hex then 16 else 10);
          s3 = (if hex then drop 2 s2 else s2);
          ds = takeWhile (\<lambda>c. radix_digit radix c \<noteq> None) s3
      in if ds = [] then None else Some (sign * radix_val radix ds))"

definition parseInteger :: "string option \<Rightarrow> int \<Rightarrow> int" where
  "parseInteger v defaultValue =
     (case v of None \<Rightarrow> defaultValue
      | Some s \<Rightarrow> if s = [] then defaultValue
                  else (case parseInt s of None \<Rightarrow> defaultValue | Some parsed \<Rightarrow> parsed))"

text \<open>\<open>parseNumber\<close>, over the platform's \<open>parseFloat\<close> (\<open>pf\<close>).\<close>

definition parseNumber :: "(string \<Rightarrow> real option) \<Rightarrow> string option \<Rightarrow> real \<Rightarrow> real" where
  "parseNumber pf v defaultValue =
     (case v of None \<Rightarrow> defaultValue
      | Some s \<Rightarrow> if s = [] then defaultValue
                  else (case pf s of None \<Rightarrow> defaultValue | Some parsed \<Rightarrow> parsed))"

subsection \<open>Rows, accumulators and tables\<close>

text \<open>
  The object pushed onto \<open>dataToInsert\<close>. \<open>lastUpdate\<close> is \<open>new Date(text)\<close> of a text in
  whatever format the file uses; the model keeps the text.
\<close>

record DailyReport =
  fips :: "string option"
  admin2 :: "string option"
  provinceState :: "string option"
  countryRegion :: string
  lastUpdate :: string
  latitude :: "real option"
  longitude :: "real option"
  confirmed :: int
  deaths :: int
  recovered :: int
  active :: int
  combinedKey :: "string option"
  incidentRate :: "real option"
  caseFatalityRatio :: "real option"
  reportDate :: Date

text \<open>The value of the global map, which is also what step 5 writes.\<close>

record GlobalStats =
  date :: Date
  totalConfirmed :: int
  totalDeaths :: int
  totalRecovered :: int
  totalActive :: int

text \<open>The value of the per-country map.\<close>

record CountryAcc =
  acc_confirmed :: int
  acc_deaths :: int
  acc_recovered :: int
  acc_active :: int
  incidentRates :: "real list"
  fatalityRatios :: "real list"

text \<open>What step 6 writes.\<close>

record CountryStats =
  cs_countryRegion :: string
  cs_date :: Date
  cs_totalConfirmed :: int
  cs_totalDeaths :: int
  cs_totalRecovered :: int
  cs_totalActive :: int
  cs_incidentRate :: "real option"
  cs_caseFatalityRatio :: "real option"

record Database =
  dailyReport :: "DailyReport list"
  dailyGlobalStats :: "GlobalStats list"
  countryStats :: "CountryStats list"

subsection \<open>The database calls\<close>

text \<open>What the script asks of the database, in the order it asks.\<close>

datatype db_op =
    DeleteMany_dailyReport
  | DeleteMany_dailyGlobalStats
  | DeleteMany_countryStats
  | CreateMany_dailyReport nat
  | Create_dailyGlobalStats
  | Create_countryStats
  | Disconnect

text \<open>
  The unique index of the migration on
  \<open>("countryRegion", "provinceState", "admin2", "reportDate")\<close>. Two rows collide when
  they agree on the four columns; as in any SQL unique index, a NULL in an indexed
  column collides with nothing (\<open>provinceState\<close> and \<open>admin2\<close> are the nullable ones).
\<close>

definition unique_conflict :: "DailyReport \<Rightarrow> DailyReport \<Rightarrow> bool" where
  "unique_conflict a b =
     (countryRegion a = countryRegion b \<and>
      provinceState a \<noteq> None \<and> provinceState a = provinceState b \<and>
      admin2 a \<noteq> None \<and> admin2 a = admin2 b \<and>
      reportDate a = reportDate b)"

text \<open>
  \<open>prisma.dailyReport.createMany({ data: batch, skipDuplicates: true })\<close>: the rows go in
  one by one, a row that collides with a row already there (of the table or of the same
  batch) is left out.
\<close>

definition insert_skip :: "DailyReport list \<Rightarrow> DailyReport \<Rightarrow> DailyReport list" where
  "insert_skip table r = (if list_ex (\<lambda>x. unique_conflict x r) table then table else table @ [r])"

definition createMany :: "DailyReport list \<Rightarrow> DailyReport list \<Rightarrow> DailyReport list" where
  "createMany batch table = foldl insert_skip table batch"

subsection \<open>One file\<close>

record FileAcc =
  dailyConfirmed :: int
  dailyDeaths :: int
  dailyRecovered :: int
  dailyActive :: int
  countryStatsMap :: "(string \<times> CountryAcc) list"
  dataToInsert :: "DailyReport list"

definition new_CountryAcc :: CountryAcc where
  "new_CountryAcc = \<lparr> acc_confirmed = 0, acc_deaths = 0, acc_recovered = 0, acc_active = 0,
                       incidentRates = [], fatalityRatios = [] \<rparr>"

text \<open>
  The body of \<open>for (const row of rows)\<close>. \<open>isoText\<close> is \<open>reportDate.toISOString()\<close>, the
  default of the observation time. The country entry is created on first use and then
  updated in place, which keeps its position in the map.
\<close>

definition process_row ::
  "(string \<Rightarrow> real option) \<Rightarrow> Date \<Rightarrow> string \<Rightarrow> FileAcc \<Rightarrow> DailyReportRow \<Rightarrow> FileAcc" where
  "process_row pf rDate isoText a row =
     (case parseValue (js_or (row ''Country_Region'') (row ''Country/Region'')) None of
        None \<Rightarrow> a
      | Some country \<Rightarrow>
          (let nConfirmed = parseInteger (row ''Confirmed'') 0;
               nDeaths = parseInteger (row ''Deaths'') 0;
               nRecovered = parseInteger (row ''Recovered'') 0;
               nActive = parseInteger (row ''Active'') (nConfirmed - nDeaths - nRecovered);
               stats = (case map_of (countryStatsMap a) country of
                          None \<Rightarrow> new_CountryAcc | Some st \<Rightarrow> st);
               rate = parseNumber pf (js_or (row ''Incident_Rate'') (row ''Incidence_Rate'')) 0;
               ratio = parseNumber pf
                         (js_or (row ''Case-Fatality_Ratio'') (row ''Case_Fatality_Ratio'')) 0;
               stats' = \<lparr> acc_confirmed = acc_confirmed stats + nConfirmed,
                          acc_deaths = acc_deaths stats + nDeaths,
                          acc_recovered = acc_recovered stats + nRecovered,
                          acc_active = acc_active stats + nActive,
                          incidentRates =
                            (if rate > 0 then incidentRates stats @ [rate]
                             else incidentRates stats),
                          fatalityRatios =
                            (if ratio > 0 then fatalityRatios stats @ [ratio]
                             else fatalityRatios stats) \<rparr>;
               detail = \<lparr> fips = parseValue (row ''FIPS'') None,
                          admin2 = parseValue (row ''Admin2'') None,
                          provinceState =
                            parseValue (js_or (row ''Province_State'') (row ''Province/State'')) None,
                          countryRegion = country,
                          lastUpdate =
                            (case parseValue (js_or (row ''Last_Update'') (row ''Last Update''))
                                    (Some isoText) of
                               Some t \<Rightarrow> t | None \<Rightarrow> isoText),
                          latitude = Some (parseNumber pf (js_or (row ''Lat'') (row ''Latitude'')) 0),
                          longitude = Some (parseNumber pf (js_or (row ''Long_'') (row ''Longitude'')) 0),
                          confirmed = nConfirmed,
                          deaths = nDeaths,
                          recovered = nRecovered,
                          active = nActive,
                          combinedKey = parseValue (row ''Combined_Key'') None,
                          incidentRate = (if rate > 0 then Some rate else None),
                          caseFatalityRatio = (if ratio > 0 then Some ratio else None),
                          reportDate = rDate \<rparr>
           in \<lparr> dailyConfirmed = dailyConfirmed a + nConfirmed,
                dailyDeaths = dailyDeaths a + nDeaths,
                dailyRecovered = dailyRecovered a + nRecovered,
                dailyActive = dailyActive a + nActive,
                countryStatsMap = AList.update country stats' (countryStatsMap a),
                dataToInsert = dataToInsert a @ [detail] \<rparr>))"

definition process_rows ::
  "(string \<Rightarrow> real option) \<Rightarrow> Date \<Rightarrow> string \<Rightarrow> (string \<times> CountryAcc) list \<Rightarrow>
   DailyReportRow list \<Rightarrow> FileAcc" where
  "process_rows pf rDate isoText countryMap rows =
     foldl (process_row pf rDate isoText)
       \<lparr> dailyConfirmed = 0, dailyDeaths = 0, dailyRecovered = 0, dailyActive = 0,
         countryStatsMap = countryMap, dataToInsert = [] \<rparr> rows"

text \<open>The console lines that tell what happened to a file, and the fatal one.\<close>

datatype console_line =
    ErrorWithFile string error
  | RecordsInserted nat
  | ErrorDuringImport error

record ImportState =
  totalRecords :: nat
  globalStatsByDate :: "(string \<times> GlobalStats) list"
  countryStatsByDate :: "(string \<times> (string \<times> CountryAcc) list) list"
  database :: Database
  console :: "console_line list"
  issued :: "db_op list"

definition batchSize :: nat where
  "batchSize = 500"

text \<open>\<open>for (let j = 0; j < dataToInsert.length; j += batchSize)\<close>.\<close>

function insert_batches :: "nat \<Rightarrow> DailyReport list \<Rightarrow> ImportState \<Rightarrow> ImportState" where
  "insert_batches j rowsToInsert st =
     (if j < length rowsToInsert
      then (let batch = take batchSize (drop j rowsToInsert)
            in insert_batches (j + batchSize) rowsToInsert
                 (st \<lparr> database := (database st)
                          \<lparr> dailyReport := createMany batch (dailyReport (database st)) \<rparr>,
                       issued := issued st @ [CreateMany_dailyReport (length batch)] \<rparr>))
      else st)"
  by pat_completeness auto
termination
  by (relation "measure (\<lambda>(j, rowsToInsert, st). length rowsToInsert - j)")
     (auto simp: batchSize_def)

declare insert_batches.simps [simp del]

text \<open>The \<open>catch\<close> of the loop body: the error is printed and the loop goes on.\<close>

definition file_failed :: "string \<Rightarrow> error \<Rightarrow> ImportState \<Rightarrow> ImportState" where
  "file_failed file e st = st \<lparr> console := console st @ [ErrorWithFile file e] \<rparr>"

text \<open>
  The body of the loop over the files. \<open>readCSVFile\<close> is the content of the directory as
  the parser returns it, \<open>None\<close> when reading throws.
\<close>

definition process_file ::
  "(string \<Rightarrow> real option) \<Rightarrow> (string \<Rightarrow> DailyReportRow list option) \<Rightarrow>
   ImportState \<Rightarrow> string \<Rightarrow> ImportState" where
  "process_file pf readCSVFile st file =
     (case parseDate file of
        Inl e \<Rightarrow> file_failed file e st
      | Inr rDate \<Rightarrow>
          (case toISOString rDate of
             Inl e \<Rightarrow> file_failed file e st
           | Inr isoText \<Rightarrow>
               (let dateKey = split_T_0 isoText in
                case readCSVFile file of
                  None \<Rightarrow> file_failed file (ReadError file) st
                | Some rows \<Rightarrow>
                    (let countryMap = (case map_of (countryStatsByDate st) dateKey of
                                         None \<Rightarrow> [] | Some m \<Rightarrow> m);
                         a = process_rows pf rDate isoText countryMap rows;
                         st1 = st \<lparr> countryStatsByDate :=
                                      AList.update dateKey (countryStatsMap a) (countryStatsByDate st),
                                    globalStatsByDate :=
                                      AList.update dateKey
                                        \<lparr> date = rDate,
                                          totalConfirmed = dailyConfirmed a,
                                          totalDeaths = dailyDeaths a,
                                          totalRecovered = dailyRecovered a,
                                          totalActive = dailyActive a \<rparr>
                                        (globalStatsByDate st) \<rparr>;
                         st2 = insert_batches 0 (dataToInsert a) st1
                     in st2 \<lparr> totalRecords := totalRecords st2 + length (dataToInsert a),
                              console := console st2 @ [RecordsInserted (length (dataToInsert a))] \<rparr>))))"

subsection \<open>The whole run\<close>

definition initial_state :: "Database \<Rightarrow> ImportState" where
  "initial_state db = \<lparr> totalRecords = 0, globalStatsByDate = [], countryStatsByDate = [],
                         database = db, console = [], issued = [] \<rparr>"

text \<open>Step 3: the three \<open>deleteMany({})\<close>.\<close>

definition wipe :: "ImportState \<Rightarrow> ImportState" where
  "wipe st = st \<lparr> database := \<lparr> dailyReport = [], dailyGlobalStats = [], countryStats = [] \<rparr>,
                  issued := issued st @ [DeleteMany_dailyReport, DeleteMany_dailyGlobalStats,
                                         DeleteMany_countryStats] \<rparr>"

text \<open>Step 5: one \<open>create\<close> per value of the global map, in the order of the map.\<close>

definition create_global :: "ImportState \<Rightarrow> GlobalStats \<Rightarrow> ImportState" where
  "create_global st stats =
     st \<lparr> database := (database st)
            \<lparr> dailyGlobalStats := dailyGlobalStats (database st) @ [stats] \<rparr>,
          issued := issued st @ [Create_dailyGlobalStats] \<rparr>"

definition insert_global_stats :: "ImportState \<Rightarrow> ImportState" where
  "insert_global_stats st = foldl create_global st (map snd (globalStatsByDate st))"

text \<open>
  \<open>xs.length > 0 ? xs.reduce((a, b) => a + b, 0) / xs.length : null\<close>: the elements are
  added to 0 from left to right, the sum is divided by their number.
\<close>

definition mean_or_null ::
  "(real \<Rightarrow> real \<Rightarrow> real) \<Rightarrow> (real \<Rightarrow> real \<Rightarrow> real) \<Rightarrow> real list \<Rightarrow> real option" where
  "mean_or_null fadd fdiv xs =
     (if length xs > 0 then Some (fdiv (foldl fadd 0 xs) (real (length xs))) else None)"

definition country_row ::
  "(real \<Rightarrow> real \<Rightarrow> real) \<Rightarrow> (real \<Rightarrow> real \<Rightarrow> real) \<Rightarrow>
   string \<Rightarrow> string \<Rightarrow> CountryAcc \<Rightarrow> CountryStats" where
  "country_row fadd fdiv dateKey country stats =
     \<lparr> cs_countryRegion = country,
       cs_date = new_Date dateKey,
       cs_totalConfirmed = acc_confirmed stats,
       cs_totalDeaths = acc_deaths stats,
       cs_totalRecovered = acc_recovered stats,
       cs_totalActive = acc_active stats,
       cs_incidentRate = mean_or_null fadd fdiv (incidentRates stats),
       cs_caseFatalityRatio = mean_or_null fadd fdiv (fatalityRatios stats) \<rparr>"

definition create_country :: "ImportState \<Rightarrow> CountryStats \<Rightarrow> ImportState" where
  "create_country st r =
     st \<lparr> database := (database st) \<lparr> countryStats := countryStats (database st) @ [r] \<rparr>,
          issued := issued st @ [Create_countryStats] \<rparr>"

text \<open>Step 6: the two nested loops over the date map and its country maps.\<close>

definition country_rows ::
  "(real \<Rightarrow> real \<Rightarrow> real) \<Rightarrow> (real \<Rightarrow> real \<Rightarrow> real) \<Rightarrow>
   (string \<times> (string \<times> CountryAcc) list) list \<Rightarrow> CountryStats list" where
  "country_rows fadd fdiv byDate =
     concat (map (\<lambda>(dateKey, countryMap).
                    map (\<lambda>(country, stats). country_row fadd fdiv dateKey country stats) countryMap)
                 byDate)"

definition insert_country_stats ::
  "(real \<Rightarrow> real \<Rightarrow> real) \<Rightarrow> (real \<Rightarrow> real \<Rightarrow> real) \<Rightarrow> ImportState \<Rightarrow> ImportState" where
  "insert_country_stats fadd fdiv st =
     foldl create_country st (country_rows fadd fdiv (countryStatsByDate st))"

text \<open>
  \<open>importDailyReports\<close>. \<open>dir\<close> is the listing of the directory, \<open>None\<close> when the
  directory does not exist; \<open>fadd\<close> and \<open>fdiv\<close> are the platform's \<open>+\<close> and \<open>/\<close> on
  doubles, used by the means of step 6 only. The result is the error thrown, if any, with
  the final state; \<open>finally\<close> disconnects on both paths.
\<close>

definition importDailyReports ::
  "(string \<Rightarrow> real option) \<Rightarrow> (real \<Rightarrow> real \<Rightarrow> real) \<Rightarrow> (real \<Rightarrow> real \<Rightarrow> real) \<Rightarrow>
   string list option \<Rightarrow> (string \<Rightarrow> DailyReportRow list option) \<Rightarrow>
   Database \<Rightarrow> (error + unit) \<times> ImportState" where
  "importDailyReports pf fadd fdiv dir readCSVFile db =
     (case dir of
        None \<Rightarrow>
          (Inl DirectoryNotFound,
           (initial_state db) \<lparr> console := [ErrorDuringImport DirectoryNotFound],
                                issued := [Disconnect] \<rparr>)
      | Some entries \<Rightarrow>
          (let files = list_csv_files entries;
               st1 = wipe (initial_state db);
               st2 = foldl (process_file pf readCSVFile) st1 files;
               st3 = insert_global_stats st2;
               st4 = insert_country_stats fadd fdiv st3
           in (Inr (), st4 \<lparr> issued := issued st4 @ [Disconnect] \<rparr>)))"

text \<open>The exit status of the script: \<open>process.exit(0)\<close> after a run, \<open>process.exit(1)\<close> on a throw.\<close>

definition exit_status :: "(error + unit) \<times> ImportState \<Rightarrow> nat" where
  "exit_status r = (case fst r of Inr _ \<Rightarrow> 0 | Inl _ \<Rightarrow> 1)"

text \<open>A database write: anything but the disconnect.\<close>

definition is_write :: "db_op \<Rightarrow> bool" where
  "is_write op = (op \<noteq> Disconnect)"

subsection \<open>Words of the specification\<close>

text \<open>A field that is absent, empty, or not a number for \<open>parseInt\<close>.\<close>

definition unusable_int :: "string option \<Rightarrow> bool" where
  "unusable_int v = (case v of None \<Rightarrow> True | Some s \<Rightarrow> s = [] \<or> parseInt s = None)"

text \<open>A field that is absent, empty, or not a number for \<open>parseFloat\<close>.\<close>

definition unusable_num :: "(string \<Rightarrow> real option) \<Rightarrow> string option \<Rightarrow> bool" where
  "unusable_num pf v = (case v of None \<Rightarrow> True | Some s \<Rightarrow> s = [] \<or> pf s = None)"

text \<open>
  What the body of the file loop has in hand when it starts on the rows: the report date,
  its ISO text and the parsed records; \<open>None\<close> when the name, the date or the reading
  throws, which is before the body has had any effect.
\<close>

definition file_input ::
  "(string \<Rightarrow> DailyReportRow list option) \<Rightarrow> string \<Rightarrow> (Date \<times> string \<times> DailyReportRow list) option" where
  "file_input readCSVFile file =
     (case parseDate file of
        Inl e \<Rightarrow> None
      | Inr rDate \<Rightarrow>
          (case toISOString rDate of
             Inl e \<Rightarrow> None
           | Inr isoText \<Rightarrow>
               (case readCSVFile file of
                  None \<Rightarrow> None
                | Some rows \<Rightarrow> Some (rDate, isoText, rows))))"

text \<open>Two states with the same maps and the same tables.\<close>

definition same_data :: "ImportState \<Rightarrow> ImportState \<Rightarrow> bool" where
  "same_data st st' =
     (globalStatsByDate st = globalStatsByDate st' \<and>
      countryStatsByDate st = countryStatsByDate st' \<and>
      database st = database st')"

text \<open>The coerced values of a parsed record, as the loop body computes them.\<close>

definition row_country :: "DailyReportRow \<Rightarrow> string option" where
  "row_country row = parseValue (js_or (row ''Country_Region'') (row ''Country/Region'')) None"

definition row_confirmed :: "DailyReportRow \<Rightarrow> int" where
  "row_confirmed row = parseInteger (row ''Confirmed'') 0"

definition row_deaths :: "DailyReportRow \<Rightarrow> int" where
  "row_deaths row = parseInteger (row ''Deaths'') 0"

definition row_recovered :: "DailyReportRow \<Rightarrow> int" where
  "row_recovered row = parseInteger (row ''Recovered'') 0"

definition row_active :: "DailyReportRow \<Rightarrow> int" where
  "row_active row =
     parseInteger (row ''Active'') (row_confirmed row - row_deaths row - row_recovered row)"

definition row_rate :: "(string \<Rightarrow> real option) \<Rightarrow> DailyReportRow \<Rightarrow> real" where
  "row_rate pf row = parseNumber pf (js_or (row ''Incident_Rate'') (row ''Incidence_Rate'')) 0"

definition row_ratio :: "(string \<Rightarrow> real option) \<Rightarrow> DailyReportRow \<Rightarrow> real" where
  "row_ratio pf row =
     parseNumber pf (js_or (row ''Case-Fatality_Ratio'') (row ''Case_Fatality_Ratio'')) 0"

text \<open>The records that count: those with a country.\<close>

definition with_country :: "DailyReportRow list \<Rightarrow> DailyReportRow list" where
  "with_country rows = filter (\<lambda>row. row_country row \<noteq> None) rows"

definition of_country :: "string \<Rightarrow> DailyReportRow list \<Rightarrow> DailyReportRow list" where
  "of_country c rows = filter (\<lambda>row. row_country row = Some c) rows"

text \<open>The accumulator of a country in a country map, the fresh one when it has none.\<close>

definition stats_of :: "(string \<times> CountryAcc) list \<Rightarrow> string \<Rightarrow> CountryAcc" where
  "stats_of m c = (case map_of m c of None \<Rightarrow> new_CountryAcc | Some st \<Rightarrow> st)"

text \<open>Two detail rows that share (country, province, sub-region, report date).\<close>

definition same_key :: "DailyReport \<Rightarrow> DailyReport \<Rightarrow> bool" where
  "same_key a b =
     (countryRegion a = countryRegion b \<and> provinceState a = provinceState b \<and>
      admin2 a = admin2 b \<and> reportDate a = reportDate b)"

text \<open>A table that satisfies its unique index: no row collides with a later one.\<close>

fun unique_ok :: "DailyReport list \<Rightarrow> bool" where
  "unique_ok [] = True"
| "unique_ok (x # xs) = (\<not> list_ex (unique_conflict x) xs \<and> unique_ok xs)"

text \<open>The country map of a date key in the date map, the empty one when it has none.\<close>

definition country_map_of ::
  "(string \<times> (string \<times> CountryAcc) list) list \<Rightarrow> string \<Rightarrow> (string \<times> CountryAcc) list" where
  "country_map_of byDate k = (case map_of byDate k of None \<Rightarrow> [] | Some m \<Rightarrow> m)"

text \<open>The date key under which a file is aggregated, when it is read.\<close>

definition file_key :: "(string \<Rightarrow> DailyReportRow list option) \<Rightarrow> string \<Rightarrow> string option" where
  "file_key readCSVFile file =
     (case file_input readCSVFile file of
        None \<Rightarrow> None
      | Some (d, t, rows) \<Rightarrow> Some (split_T_0 t))"

text \<open>
  The parsed records of a country and a report date: those of the country in the files
  that are read with that report date, in the order the files are processed.
\<close>

definition records_for ::
  "(string \<Rightarrow> DailyReportRow list option) \<Rightarrow> string list \<Rightarrow> Date \<Rightarrow> string \<Rightarrow> DailyReportRow list" where
  "records_for readCSVFile files d c =
     concat (map (\<lambda>file. case file_input readCSVFile file of
                            None \<Rightarrow> []
                          | Some (d', t, rows) \<Rightarrow> if d' = d then of_country c rows else [])
                 files)"

text \<open>
  The mean of the strictly positive samples of a list, absent when there is none. The
  mean is taken in the platform's arithmetic: the samples are added to 0 in the order of
  the list and the sum is divided by their number.
\<close>

definition mean_of_positive ::
  "(real \<Rightarrow> real \<Rightarrow> real) \<Rightarrow> (real \<Rightarrow> real \<Rightarrow> real) \<Rightarrow> real list \<Rightarrow> real option" where
  "mean_of_positive fadd fdiv xs =
     (let ps = filter (\<lambda>x. 0 < x) xs
      in if ps = [] then None else Some (fdiv (foldl fadd 0 ps) (real (length ps))))"

text \<open>A date map whose keys are distinct, each with a country map whose keys are distinct.\<close>

definition distinct_maps :: "(string \<times> (string \<times> CountryAcc) list) list \<Rightarrow> bool" where
  "distinct_maps byDate =
     (distinct (map fst byDate) \<and> list_all (\<lambda>km. distinct (map fst (snd km))) byDate)"

section \<open>Properties\<close>

subsection \<open>Coercions\<close>

lemma parseInteger_unusable: "unusable_int v \<Longrightarrow> parseInteger v dflt = dflt"
  by (auto simp: unusable_int_def parseInteger_def split: option.splits)

lemma parseNumber_unusable: "unusable_num pf v \<Longrightarrow> parseNumber pf v dflt = dflt"
  by (auto simp: unusable_num_def parseNumber_def split: option.splits)

lemma unusable_num_js_or:
  "unusable_num pf a \<Longrightarrow> unusable_num pf b \<Longrightarrow> unusable_num pf (js_or a b)"
  by (auto simp: unusable_num_def js_or_def split: option.splits)

text \<open>What a row does to the list of detail rows: nothing, or one more row at the end.\<close>

lemma process_row_emits:
  "dataToInsert (process_row pf rDate isoText a row) = dataToInsert a \<or>
   (\<exists>d. dataToInsert (process_row pf rDate isoText a row) = dataToInsert a @ [d])"
  by (simp add: process_row_def Let_def split: option.splits)

text \<open>The fields of the detail row that a row emits.\<close>

lemma emitted_detail:
  assumes "dataToInsert (process_row pf rDate isoText a row) = dataToInsert a @ [d]"
  shows "confirmed d = parseInteger (row ''Confirmed'') 0"
    and "deaths d = parseInteger (row ''Deaths'') 0"
    and "recovered d = parseInteger (row ''Recovered'') 0"
    and "active d = parseInteger (row ''Active'') (confirmed d - deaths d - recovered d)"
    and "incidentRate d =
           (if parseNumber pf (js_or (row ''Incident_Rate'') (row ''Incidence_Rate'')) 0 > 0
            then Some (parseNumber pf (js_or (row ''Incident_Rate'') (row ''Incidence_Rate'')) 0)
            else None)"
    and "caseFatalityRatio d =
           (if parseNumber pf (js_or (row ''Case-Fatality_Ratio'') (row ''Case_Fatality_Ratio'')) 0 > 0
            then Some (parseNumber pf
                         (js_or (row ''Case-Fatality_Ratio'') (row ''Case_Fatality_Ratio'')) 0)
            else None)"
    and "latitude d = Some (parseNumber pf (js_or (row ''Lat'') (row ''Latitude'')) 0)"
    and "longitude d = Some (parseNumber pf (js_or (row ''Long_'') (row ''Longitude'')) 0)"
    and "reportDate d = rDate"
  using assms
  by (auto simp: process_row_def Let_def split: option.splits)

subsection \<open>The order of the files\<close>

text \<open>
  C1. The comment of the source says the files are sorted by date; the sort is by name.
  With the month first in the name, the first day of 2021 sorts before the last day of
  2020: the enumerator returns the two files in descending order of their dates.
\<close>

theorem list_csv_files_not_by_date:
  "list_csv_files [''12-31-2020.csv'', ''01-01-2021.csv''] = [''01-01-2021.csv'', ''12-31-2020.csv'']
   \<and> report_dates (list_csv_files [''12-31-2020.csv'', ''01-01-2021.csv''])
       = [Inr (UTCDate 2021 1 1), Inr (UTCDate 2020 12 31)]
   \<and> \<not> ascending_dates (report_dates (list_csv_files [''12-31-2020.csv'', ''01-01-2021.csv'']))"
  by code_simp

subsection \<open>The detail row of a record\<close>

text \<open>
  C4. When the \<open>Active\<close> field of a record is absent, empty, or not a number, the detail
  row emitted for the record has \<open>active = confirmed - deaths - recovered\<close>, the three
  being the coerced fields of the record; nothing clamps the difference, which is negative
  when deaths and recovered exceed confirmed.
\<close>

theorem active_default_is_difference:
  assumes "unusable_int (row ''Active'')"
    and "dataToInsert (process_row pf rDate isoText a row) = dataToInsert a @ [d]"
  shows "active d = confirmed d - deaths d - recovered d
         \<and> confirmed d = parseInteger (row ''Confirmed'') 0
         \<and> deaths d = parseInteger (row ''Deaths'') 0
         \<and> recovered d = parseInteger (row ''Recovered'') 0"
  using assms(1) emitted_detail(1-4) [OF assms(2)]
  by (simp add: parseInteger_unusable)

theorem active_default_is_difference_witness:
  "unusable_int (map_of [(''Country_Region'', ''US''), (''Confirmed'', ''1''), (''Deaths'', ''5''),
                         (''Active'', '''')] ''Active'')
   \<and> active (last (dataToInsert
         (process_row (\<lambda>_. None) (UTCDate 2020 3 1) ''2020-03-01T00:00:00.000Z''
            \<lparr> dailyConfirmed = 0, dailyDeaths = 0, dailyRecovered = 0, dailyActive = 0,
              countryStatsMap = [], dataToInsert = [] \<rparr>
            (map_of [(''Country_Region'', ''US''), (''Confirmed'', ''1''), (''Deaths'', ''5''),
                     (''Active'', '''')])))) = - 4"
proof -
  let ?row = "map_of [(''Country_Region'', ''US''), (''Confirmed'', ''1''), (''Deaths'', ''5''),
                      (''Active'', '''')]"
  let ?a = "\<lparr> dailyConfirmed = 0, dailyDeaths = 0, dailyRecovered = 0, dailyActive = 0,
             countryStatsMap = [], dataToInsert = [] \<rparr>"
  let ?r = "process_row (\<lambda>_. None) (UTCDate 2020 3 1) ''2020-03-01T00:00:00.000Z'' ?a ?row"
  have u: "unusable_int (?row ''Active'')"
    by (simp add: unusable_int_def)
  have e: "dataToInsert ?r = dataToInsert ?a @ [last (dataToInsert ?r)]"
    by (simp add: process_row_def Let_def parseValue_def js_or_def)
  have c: "parseInteger (?row ''Confirmed'') 0 = 1"
    by code_simp
  have x: "parseInteger (?row ''Deaths'') 0 = 5"
    by code_simp
  have r: "parseInteger (?row ''Recovered'') 0 = 0"
    by code_simp
  from active_default_is_difference [OF u e] c x r u show ?thesis
    by simp
qed

text \<open>
  C5. When the incidence rate of a record (its case-fatality ratio) parses to exactly 0,
  which includes the absent, empty and unparseable fields that default to 0, the detail
  row emitted for the record has no incidence rate (no case-fatality ratio); a stored
  value is never 0.
\<close>

theorem zero_rate_is_null:
  assumes "dataToInsert (process_row pf rDate isoText a row) = dataToInsert a @ [d]"
  shows "(parseNumber pf (js_or (row ''Incident_Rate'') (row ''Incidence_Rate'')) 0 = 0
            \<longrightarrow> incidentRate d = None)
       \<and> (parseNumber pf (js_or (row ''Case-Fatality_Ratio'') (row ''Case_Fatality_Ratio'')) 0 = 0
            \<longrightarrow> caseFatalityRatio d = None)
       \<and> (unusable_num pf (js_or (row ''Incident_Rate'') (row ''Incidence_Rate''))
            \<longrightarrow> incidentRate d = None)
       \<and> (unusable_num pf (js_or (row ''Case-Fatality_Ratio'') (row ''Case_Fatality_Ratio''))
            \<longrightarrow> caseFatalityRatio d = None)
       \<and> incidentRate d \<noteq> Some 0 \<and> caseFatalityRatio d \<noteq> Some 0"
  using emitted_detail(5,6) [OF assms]
  by (simp add: parseNumber_unusable)

theorem zero_rate_is_null_witness:
  "parseNumber (\<lambda>s. if s = ''0.0'' then Some 0 else None)
     (js_or (map_of [(''Country_Region'', ''US''), (''Incident_Rate'', ''0.0'')] ''Incident_Rate'')
            (map_of [(''Country_Region'', ''US''), (''Incident_Rate'', ''0.0'')] ''Incidence_Rate'')) 0 = 0
   \<and> unusable_num (\<lambda>s. if s = ''0.0'' then Some 0 else None)
       (js_or (map_of [(''Country_Region'', ''US''), (''Incident_Rate'', ''0.0'')] ''Case-Fatality_Ratio'')
              (map_of [(''Country_Region'', ''US''), (''Incident_Rate'', ''0.0'')] ''Case_Fatality_Ratio''))
   \<and> incidentRate (last (dataToInsert
         (process_row (\<lambda>s. if s = ''0.0'' then Some 0 else None) (UTCDate 2020 3 1)
            ''2020-03-01T00:00:00.000Z''
            \<lparr> dailyConfirmed = 0, dailyDeaths = 0, dailyRecovered = 0, dailyActive = 0,
              countryStatsMap = [], dataToInsert = [] \<rparr>
            (map_of [(''Country_Region'', ''US''), (''Incident_Rate'', ''0.0'')])))) = None
   \<and> caseFatalityRatio (last (dataToInsert
         (process_row (\<lambda>s. if s = ''0.0'' then Some 0 else None) (UTCDate 2020 3 1)
            ''2020-03-01T00:00:00.000Z''
            \<lparr> dailyConfirmed = 0, dailyDeaths = 0, dailyRecovered = 0, dailyActive = 0,
              countryStatsMap = [], dataToInsert = [] \<rparr>
            (map_of [(''Country_Region'', ''US''), (''Incident_Rate'', ''0.0'')])))) = None"
proof -
  let ?pf = "\<lambda>s. if s = ''0.0'' then Some (0::real) else None"
  let ?row = "map_of [(''Country_Region'', ''US''), (''Incident_Rate'', ''0.0'')]"
  let ?a = "\<lparr> dailyConfirmed = 0, dailyDeaths = 0, dailyRecovered = 0, dailyActive = 0,
             countryStatsMap = [], dataToInsert = [] \<rparr>"
  let ?r = "process_row ?pf (UTCDate 2020 3 1) ''2020-03-01T00:00:00.000Z'' ?a ?row"
  have e: "dataToInsert ?r = dataToInsert ?a @ [last (dataToInsert ?r)]"
    by (simp add: process_row_def Let_def parseValue_def js_or_def)
  have z: "parseNumber ?pf (js_or (?row ''Incident_Rate'') (?row ''Incidence_Rate'')) 0 = 0"
    by (simp add: parseNumber_def js_or_def)
  have u: "unusable_num ?pf (js_or (?row ''Case-Fatality_Ratio'') (?row ''Case_Fatality_Ratio''))"
    by (simp add: unusable_num_def js_or_def)
  from zero_rate_is_null [OF e] z u show ?thesis
    by blast
qed

text \<open>
  C10. When both spellings of the latitude field of a record (\<open>Lat\<close>, \<open>Latitude\<close>) are
  absent, empty, or not a number, the detail row emitted for the record stores the
  latitude 0, not a null; the same holds of the longitude (\<open>Long_\<close>, \<open>Longitude\<close>). A
  record without coordinates is stored as the point (0, 0).
\<close>

theorem missing_coordinates_are_zero:
  assumes "dataToInsert (process_row pf rDate isoText a row) = dataToInsert a @ [d]"
  shows "(unusable_num pf (row ''Lat'') \<and> unusable_num pf (row ''Latitude'')
            \<longrightarrow> latitude d = Some 0)
       \<and> (unusable_num pf (row ''Long_'') \<and> unusable_num pf (row ''Longitude'')
            \<longrightarrow> longitude d = Some 0)
       \<and> latitude d \<noteq> None \<and> longitude d \<noteq> None"
  using emitted_detail(7,8) [OF assms]
  by (simp add: parseNumber_unusable unusable_num_js_or)

theorem missing_coordinates_are_zero_witness:
  "unusable_num (\<lambda>s. None) (map_of [(''Country_Region'', ''US''), (''Lat'', ''''), (''Long_'', ''n/a'')] ''Lat'')
   \<and> unusable_num (\<lambda>s. None) (map_of [(''Country_Region'', ''US''), (''Lat'', ''''), (''Long_'', ''n/a'')] ''Latitude'')
   \<and> unusable_num (\<lambda>s. None) (map_of [(''Country_Region'', ''US''), (''Lat'', ''''), (''Long_'', ''n/a'')] ''Long_'')
   \<and> unusable_num (\<lambda>s. None) (map_of [(''Country_Region'', ''US''), (''Lat'', ''''), (''Long_'', ''n/a'')] ''Longitude'')
   \<and> latitude (last (dataToInsert
         (process_row (\<lambda>s. None) (UTCDate 2020 3 1) ''2020-03-01T00:00:00.000Z''
            \<lparr> dailyConfirmed = 0, dailyDeaths = 0, dailyRecovered = 0, dailyActive = 0,
              countryStatsMap = [], dataToInsert = [] \<rparr>
            (map_of [(''Country_Region'', ''US''), (''Lat'', ''''), (''Long_'', ''n/a'')])))) = Some 0
   \<and> longitude (last (dataToInsert
         (process_row (\<lambda>s. None) (UTCDate 2020 3 1) ''2020-03-01T00:00:00.000Z''
            \<lparr> dailyConfirmed = 0, dailyDeaths = 0, dailyRecovered = 0, dailyActive = 0,
              countryStatsMap = [], dataToInsert = [] \<rparr>
            (map_of [(''Country_Region'', ''US''), (''Lat'', ''''), (''Long_'', ''n/a'')])))) = Some 0"
proof -
  let ?pf = "\<lambda>s::string. None :: real option"
  let ?row = "map_of [(''Country_Region'', ''US''), (''Lat'', ''''), (''Long_'', ''n/a'')]"
  let ?a = "\<lparr> dailyConfirmed = 0, dailyDeaths = 0, dailyRecovered = 0, dailyActive = 0,
             countryStatsMap = [], dataToInsert = [] \<rparr>"
  let ?r = "process_row ?pf (UTCDate 2020 3 1) ''2020-03-01T00:00:00.000Z'' ?a ?row"
  have e: "dataToInsert ?r = dataToInsert ?a @ [last (dataToInsert ?r)]"
    by (simp add: process_row_def Let_def parseValue_def js_or_def)
  have u: "unusable_num ?pf (?row ''Lat'')" "unusable_num ?pf (?row ''Latitude'')"
    "unusable_num ?pf (?row ''Long_'')" "unusable_num ?pf (?row ''Longitude'')"
    by (simp_all add: unusable_num_def)
  from missing_coordinates_are_zero [OF e] u show ?thesis
    by blast
qed

subsection \<open>A missing directory\<close>

text \<open>
  C9. When the directory does not exist, the run throws before it touches the database:
  the error is the missing directory, the tables are as they were, no delete and no
  insert has been issued (the only call is the disconnect of \<open>finally\<close>), and the script
  exits with status 1.
\<close>

theorem missing_directory_is_fatal_before_writes:
  "fst (importDailyReports pf fadd fdiv None readCSVFile db) = Inl DirectoryNotFound
   \<and> database (snd (importDailyReports pf fadd fdiv None readCSVFile db)) = db
   \<and> filter is_write (issued (snd (importDailyReports pf fadd fdiv None readCSVFile db))) = []
   \<and> exit_status (importDailyReports pf fadd fdiv None readCSVFile db) = 1"
  by (simp add: importDailyReports_def initial_state_def is_write_def exit_status_def)

subsection \<open>The loop over the files\<close>

lemma createMany_append: "createMany (xs @ ys) t = createMany ys (createMany xs t)"
  by (simp add: createMany_def)

lemma createMany_Nil: "createMany [] t = t"
  by (simp add: createMany_def)

lemma createMany_take_drop:
  "createMany (drop (j + n) xs) (createMany (take n (drop j xs)) t) = createMany (drop j xs) t"
proof -
  have "drop j xs = take n (drop j xs) @ drop (j + n) xs"
    by (metis append_take_drop_id drop_drop add.commute)
  then have "createMany (drop j xs) t = createMany (take n (drop j xs) @ drop (j + n) xs) t"
    by simp
  then show ?thesis
    by (simp add: createMany_append)
qed

text \<open>The batches together insert the rows from \<open>j\<close> on, whatever the batch size.\<close>

lemma insert_batches_closed:
  "\<exists>ops. insert_batches j xs st =
     st \<lparr> database := (database st)
            \<lparr> dailyReport := createMany (drop j xs) (dailyReport (database st)) \<rparr>,
          issued := issued st @ ops \<rparr>"
proof (induction j xs st rule: insert_batches.induct)
  case (1 j xs st)
  show ?case
  proof (cases "j < length xs")
    case True
    let ?st1 = "st \<lparr> database := (database st)
                  \<lparr> dailyReport := createMany (take batchSize (drop j xs)) (dailyReport (database st)) \<rparr>,
                issued := issued st @ [CreateMany_dailyReport (length (take batchSize (drop j xs)))] \<rparr>"
    from "1" [OF True refl] obtain ops where
      "insert_batches (j + batchSize) xs ?st1 =
         ?st1 \<lparr> database := (database ?st1)
            \<lparr> dailyReport := createMany (drop (j + batchSize) xs) (dailyReport (database ?st1)) \<rparr>,
          issued := issued ?st1 @ ops \<rparr>"
      by blast
    with True show ?thesis
      by (subst insert_batches.simps) (auto simp: Let_def createMany_take_drop)
  next
    case False
    then have "insert_batches j xs st = st"
      by (subst insert_batches.simps) simp
    with False show ?thesis
      by (intro exI [of _ "[]"]) (simp add: createMany_Nil)
  qed
qed

text \<open>A file that throws leaves one line on the console and nothing else.\<close>

lemma process_file_failed:
  assumes "file_input readCSVFile f = None"
  shows "\<exists>e. process_file pf readCSVFile st f = st \<lparr> console := console st @ [ErrorWithFile f e] \<rparr>"
  using assms
  by (auto simp: file_input_def process_file_def file_failed_def Let_def
           split: sum.splits option.splits)

lemma process_file_no_pattern:
  assumes "regex_match f = None"
  shows "process_file pf readCSVFile st f =
           st \<lparr> console := console st @ [ErrorWithFile f (InvalidFileName f)] \<rparr>"
  using assms
  by (simp add: process_file_def parseDate_def file_failed_def)

text \<open>A file that is read changes the state as follows.\<close>

lemma process_file_ok:
  assumes "file_input readCSVFile f = Some (d, t, rows)"
  shows "\<exists>ops. process_file pf readCSVFile st f =
     (let a = process_rows pf d t
                (case map_of (countryStatsByDate st) (split_T_0 t) of None \<Rightarrow> [] | Some m \<Rightarrow> m) rows
      in st \<lparr> totalRecords := totalRecords st + length (dataToInsert a),
              globalStatsByDate :=
                AList.update (split_T_0 t)
                  \<lparr> date = d, totalConfirmed = dailyConfirmed a, totalDeaths = dailyDeaths a,
                    totalRecovered = dailyRecovered a, totalActive = dailyActive a \<rparr>
                  (globalStatsByDate st),
              countryStatsByDate :=
                AList.update (split_T_0 t) (countryStatsMap a) (countryStatsByDate st),
              database := (database st)
                \<lparr> dailyReport := createMany (dataToInsert a) (dailyReport (database st)) \<rparr>,
              console := console st @ [RecordsInserted (length (dataToInsert a))],
              issued := issued st @ ops \<rparr>)"
proof -
  let ?a = "process_rows pf d t
                (case map_of (countryStatsByDate st) (split_T_0 t) of None \<Rightarrow> [] | Some m \<Rightarrow> m) rows"
  let ?st1 = "st \<lparr> countryStatsByDate :=
                      AList.update (split_T_0 t) (countryStatsMap ?a) (countryStatsByDate st),
                    globalStatsByDate :=
                      AList.update (split_T_0 t)
                  \<lparr> date = d, totalConfirmed = dailyConfirmed ?a, totalDeaths = dailyDeaths ?a,
                    totalRecovered = dailyRecovered ?a, totalActive = dailyActive ?a \<rparr>
                  (globalStatsByDate st) \<rparr>"
  obtain ops where b: "insert_batches 0 (dataToInsert ?a) ?st1 =
     ?st1 \<lparr> database := (database ?st1)
            \<lparr> dailyReport := createMany (drop 0 (dataToInsert ?a)) (dailyReport (database ?st1)) \<rparr>,
          issued := issued ?st1 @ ops \<rparr>"
    using insert_batches_closed by blast
  from assms have p: "parseDate f = Inr d" "toISOString d = Inr t" "readCSVFile f = Some rows"
    by (auto simp: file_input_def split: sum.splits option.splits)
  show ?thesis
    by (rule exI [of _ ops]) (simp add: process_file_def p Let_def b)
qed

lemma same_data_process_file:
  assumes "same_data st st'"
  shows "same_data (process_file pf readCSVFile st f) (process_file pf readCSVFile st' f)"
proof (cases "file_input readCSVFile f")
  case None
  from process_file_failed [OF None, of pf st] process_file_failed [OF None, of pf st'] assms
  show ?thesis
    by (auto simp: same_data_def)
next
  case (Some x)
  obtain d t rows where x: "x = (d, t, rows)"
    by (cases x) auto
  from process_file_ok [OF Some [unfolded x], of pf st]
       process_file_ok [OF Some [unfolded x], of pf st'] assms
  show ?thesis
    by (auto simp: same_data_def Let_def)
qed

lemma same_data_skip:
  assumes "regex_match f = None" and "same_data st st'"
  shows "same_data (foldl (process_file pf readCSVFile) st (filter (\<lambda>g. g \<noteq> f) xs))
                   (foldl (process_file pf readCSVFile) st' xs)"
  using assms(2)
proof (induction xs arbitrary: st st')
  case Nil
  then show ?case by simp
next
  case (Cons x xs)
  show ?case
  proof (cases "x = f")
    case True
    from Cons.prems have "same_data st (process_file pf readCSVFile st' f)"
      by (simp add: process_file_no_pattern [OF assms(1)] same_data_def)
    from Cons.IH [OF this] True show ?thesis
      by simp
  next
    case False
    from Cons.IH [OF same_data_process_file [OF Cons.prems]] False show ?thesis
      by simp
  qed
qed

lemma console_process_file:
  "\<exists>lines. console (process_file pf readCSVFile st f) = console st @ lines"
proof (cases "file_input readCSVFile f")
  case None
  from process_file_failed [OF None, of pf st] show ?thesis
    by auto
next
  case (Some x)
  obtain d t rows where x: "x = (d, t, rows)"
    by (cases x) auto
  from process_file_ok [OF Some [unfolded x], of pf st] show ?thesis
    by (auto simp: Let_def)
qed

lemma console_files:
  "\<exists>lines. console (foldl (process_file pf readCSVFile) st xs) = console st @ lines"
proof (induction xs arbitrary: st)
  case Nil
  then show ?case by simp
next
  case (Cons x xs)
  from console_process_file [of pf readCSVFile st x] obtain l1 where
    l1: "console (process_file pf readCSVFile st x) = console st @ l1"
    by blast
  from Cons.IH [of "process_file pf readCSVFile st x"] obtain l2 where
    "console (foldl (process_file pf readCSVFile) (process_file pf readCSVFile st x) xs) =
       console (process_file pf readCSVFile st x) @ l2"
    by blast
  with l1 show ?case
    by simp
qed

lemma console_names_skipped:
  assumes "regex_match f = None" and "f \<in> set xs"
  shows "ErrorWithFile f (InvalidFileName f) \<in> set (console (foldl (process_file pf readCSVFile) st xs))"
  using assms(2)
proof (induction xs arbitrary: st)
  case Nil
  then show ?case by simp
next
  case (Cons x xs)
  show ?case
  proof (cases "x = f")
    case True
    from console_files [of pf readCSVFile "process_file pf readCSVFile st f" xs] obtain l where
      "console (foldl (process_file pf readCSVFile) (process_file pf readCSVFile st f) xs) =
         console (process_file pf readCSVFile st f) @ l"
      by blast
    with True show ?thesis
      by (simp add: process_file_no_pattern [OF assms(1)])
  next
    case False
    with Cons.prems have "f \<in> set xs"
      by simp
    from Cons.IH [OF this] show ?thesis
      by simp
  qed
qed

lemma foldl_create_global:
  "foldl create_global st xs =
     st \<lparr> database := (database st) \<lparr> dailyGlobalStats := dailyGlobalStats (database st) @ xs \<rparr>,
          issued := issued st @ replicate (length xs) Create_dailyGlobalStats \<rparr>"
  by (induction xs arbitrary: st) (simp_all add: create_global_def replicate_app_Cons_same)

lemma foldl_create_country:
  "foldl create_country st xs =
     st \<lparr> database := (database st) \<lparr> countryStats := countryStats (database st) @ xs \<rparr>,
          issued := issued st @ replicate (length xs) Create_countryStats \<rparr>"
  by (induction xs arbitrary: st) (simp_all add: create_country_def replicate_app_Cons_same)

lemma import_database:
  "database (snd (importDailyReports pf fadd fdiv (Some entries) readCSVFile db)) =
     (let st2 = foldl (process_file pf readCSVFile) (wipe (initial_state db)) (list_csv_files entries)
      in (database st2)
           \<lparr> dailyGlobalStats := dailyGlobalStats (database st2) @ map snd (globalStatsByDate st2),
             countryStats := countryStats (database st2) @ country_rows fadd fdiv (countryStatsByDate st2) \<rparr>)"
  by (simp add: importDailyReports_def Let_def insert_global_stats_def insert_country_stats_def
                foldl_create_global foldl_create_country)

lemma import_console:
  "console (snd (importDailyReports pf fadd fdiv (Some entries) readCSVFile db)) =
     console (foldl (process_file pf readCSVFile) (wipe (initial_state db)) (list_csv_files entries))"
  by (simp add: importDailyReports_def Let_def insert_global_stats_def insert_country_stats_def
                foldl_create_global foldl_create_country)

lemma list_csv_files_filter:
  "list_csv_files (filter P entries) = filter P (list_csv_files entries)"
  by (simp add: list_csv_files_def filter_sort conj_commute)

lemma list_csv_files_member:
  "f \<in> set entries \<Longrightarrow> endsWith f ''.csv'' \<Longrightarrow> f \<in> set (list_csv_files entries)"
  by (simp add: list_csv_files_def)

subsection \<open>A file without a date in its name\<close>

text \<open>
  C8. When the directory holds a \<open>.csv\<close> file whose name does not match the date pattern
  (\<open>invalid.csv\<close>), the run is not fatal: it returns normally and exits with status 0,
  the console names the file with its error, and the three tables end up exactly as in a
  run on the directory without that file, so that no row derives from it.
\<close>

theorem file_without_date_is_skipped:
  assumes "f \<in> set entries" and "endsWith f ''.csv''" and "regex_match f = None"
  shows "fst (importDailyReports pf fadd fdiv (Some entries) readCSVFile db) = Inr ()
       \<and> exit_status (importDailyReports pf fadd fdiv (Some entries) readCSVFile db) = 0
       \<and> ErrorWithFile f (InvalidFileName f)
           \<in> set (console (snd (importDailyReports pf fadd fdiv (Some entries) readCSVFile db)))
       \<and> database (snd (importDailyReports pf fadd fdiv (Some entries) readCSVFile db))
           = database (snd (importDailyReports pf fadd fdiv (Some (filter (\<lambda>g. g \<noteq> f) entries)) readCSVFile db))"
proof -
  let ?st = "wipe (initial_state db)"
  have a: "fst (importDailyReports pf fadd fdiv (Some entries) readCSVFile db) = Inr ()"
    by (simp add: importDailyReports_def Let_def)
  then have b: "exit_status (importDailyReports pf fadd fdiv (Some entries) readCSVFile db) = 0"
    by (simp add: exit_status_def)
  have c: "ErrorWithFile f (InvalidFileName f)
           \<in> set (console (snd (importDailyReports pf fadd fdiv (Some entries) readCSVFile db)))"
    unfolding import_console
    by (rule console_names_skipped [OF assms(3) list_csv_files_member [OF assms(1,2)]])
  have "same_data ?st ?st"
    by (simp add: same_data_def)
  from same_data_skip [OF assms(3) this, of pf readCSVFile "list_csv_files entries"]
  have d: "database (snd (importDailyReports pf fadd fdiv (Some entries) readCSVFile db))
           = database (snd (importDailyReports pf fadd fdiv (Some (filter (\<lambda>g. g \<noteq> f) entries)) readCSVFile db))"
    by (simp add: import_database list_csv_files_filter same_data_def Let_def)
  from a b c d show ?thesis
    by blast
qed

theorem file_without_date_is_skipped_witness:
  "''invalid.csv'' \<in> set [''invalid.csv'', ''03-01-2020.csv'']
   \<and> endsWith ''invalid.csv'' ''.csv''
   \<and> regex_match ''invalid.csv'' = None
   \<and> exit_status (importDailyReports (\<lambda>s. None) (+) (/) (Some [''invalid.csv'', ''03-01-2020.csv''])
         (map_of [(''03-01-2020.csv'', [map_of [(''Country_Region'', ''US''), (''Confirmed'', ''1000'')]]),
                  (''invalid.csv'', [map_of [(''Country_Region'', ''FR''), (''Confirmed'', ''7'')]])])
         \<lparr> dailyReport = [], dailyGlobalStats = [], countryStats = [] \<rparr>) = 0
   \<and> ErrorWithFile ''invalid.csv'' (InvalidFileName ''invalid.csv'')
       \<in> set (console (snd (importDailyReports (\<lambda>s. None) (+) (/) (Some [''invalid.csv'', ''03-01-2020.csv''])
         (map_of [(''03-01-2020.csv'', [map_of [(''Country_Region'', ''US''), (''Confirmed'', ''1000'')]]),
                  (''invalid.csv'', [map_of [(''Country_Region'', ''FR''), (''Confirmed'', ''7'')]])])
         \<lparr> dailyReport = [], dailyGlobalStats = [], countryStats = [] \<rparr>)))
   \<and> map countryRegion (dailyReport (database (snd (importDailyReports (\<lambda>s. None) (+) (/)
         (Some [''invalid.csv'', ''03-01-2020.csv''])
         (map_of [(''03-01-2020.csv'', [map_of [(''Country_Region'', ''US''), (''Confirmed'', ''1000'')]]),
                  (''invalid.csv'', [map_of [(''Country_Region'', ''FR''), (''Confirmed'', ''7'')]])])
         \<lparr> dailyReport = [], dailyGlobalStats = [], countryStats = [] \<rparr>)))) = [''US'']"
proof -
  let ?entries = "[''invalid.csv'', ''03-01-2020.csv'']"
  let ?read = "map_of [(''03-01-2020.csv'', [map_of [(''Country_Region'', ''US''), (''Confirmed'', ''1000'')]]),
                  (''invalid.csv'', [map_of [(''Country_Region'', ''FR''), (''Confirmed'', ''7'')]])]"
  let ?db = "\<lparr> dailyReport = [], dailyGlobalStats = [], countryStats = [] \<rparr>"
  have m: "''invalid.csv'' \<in> set ?entries"
    by simp
  have e: "endsWith ''invalid.csv'' ''.csv''"
    by (simp add: endsWith_def)
  have r: "regex_match ''invalid.csv'' = None"
    by code_simp
  have f: "filter (\<lambda>g. g \<noteq> ''invalid.csv'') ?entries = [''03-01-2020.csv'']"
    by simp
  have v: "map countryRegion (dailyReport (database (snd (importDailyReports (\<lambda>s. None) (+) (/)
             (Some [''03-01-2020.csv'']) ?read ?db)))) = [''US'']"
    by code_simp
  from file_without_date_is_skipped [OF m e r, of "\<lambda>s. None" "(+)" "(/)" ?read ?db] m e r v show ?thesis
    unfolding f by simp
qed

subsection \<open>Running twice\<close>

lemma wipe_initial_state:
  "wipe (initial_state db) =
     \<lparr> totalRecords = 0, globalStatsByDate = [], countryStatsByDate = [],
       database = \<lparr> dailyReport = [], dailyGlobalStats = [], countryStats = [] \<rparr>,
       console = [],
       issued = [DeleteMany_dailyReport, DeleteMany_dailyGlobalStats, DeleteMany_countryStats] \<rparr>"
  by (simp add: wipe_def initial_state_def)

text \<open>
  C7. A second run on the same directory, started on the tables the first run left,
  leaves the same three tables as the first run: the wipe makes the result independent
  of what was there before. (Rows are compared on the columns the script writes.)
\<close>

theorem second_run_same_dataset:
  "database (snd (importDailyReports pf fadd fdiv dir readCSVFile
       (database (snd (importDailyReports pf fadd fdiv dir readCSVFile db)))))
     = database (snd (importDailyReports pf fadd fdiv dir readCSVFile db))"
proof (cases dir)
  case None
  then show ?thesis
    by (simp add: importDailyReports_def initial_state_def)
next
  case (Some entries)
  then show ?thesis
    by (simp add: import_database wipe_initial_state)
qed

subsection \<open>The rows of a file\<close>

lemma process_row_totals:
  "dailyConfirmed (process_row pf d t a row) =
     dailyConfirmed a + (if row_country row = None then 0 else row_confirmed row)"
  "dailyDeaths (process_row pf d t a row) =
     dailyDeaths a + (if row_country row = None then 0 else row_deaths row)"
  "dailyRecovered (process_row pf d t a row) =
     dailyRecovered a + (if row_country row = None then 0 else row_recovered row)"
  "dailyActive (process_row pf d t a row) =
     dailyActive a + (if row_country row = None then 0 else row_active row)"
  by (simp_all add: process_row_def Let_def row_country_def row_confirmed_def row_deaths_def
        row_recovered_def row_active_def split: option.splits)

lemma process_row_data:
  "length (dataToInsert (process_row pf d t a row)) =
     length (dataToInsert a) + (if row_country row = None then 0 else 1)"
  by (simp add: process_row_def Let_def row_country_def split: option.splits)

lemma process_row_stats:
  "acc_confirmed (stats_of (countryStatsMap (process_row pf d t a row)) c) =
     acc_confirmed (stats_of (countryStatsMap a) c)
       + (if row_country row = Some c then row_confirmed row else 0)"
  "acc_deaths (stats_of (countryStatsMap (process_row pf d t a row)) c) =
     acc_deaths (stats_of (countryStatsMap a) c)
       + (if row_country row = Some c then row_deaths row else 0)"
  "acc_recovered (stats_of (countryStatsMap (process_row pf d t a row)) c) =
     acc_recovered (stats_of (countryStatsMap a) c)
       + (if row_country row = Some c then row_recovered row else 0)"
  "acc_active (stats_of (countryStatsMap (process_row pf d t a row)) c) =
     acc_active (stats_of (countryStatsMap a) c)
       + (if row_country row = Some c then row_active row else 0)"
  "incidentRates (stats_of (countryStatsMap (process_row pf d t a row)) c) =
     incidentRates (stats_of (countryStatsMap a) c)
       @ (if row_country row = Some c \<and> 0 < row_rate pf row then [row_rate pf row] else [])"
  "fatalityRatios (stats_of (countryStatsMap (process_row pf d t a row)) c) =
     fatalityRatios (stats_of (countryStatsMap a) c)
       @ (if row_country row = Some c \<and> 0 < row_ratio pf row then [row_ratio pf row] else [])"
  by (simp_all add: process_row_def Let_def row_country_def row_confirmed_def row_deaths_def
        row_recovered_def row_active_def row_rate_def row_ratio_def stats_of_def update_conv'
        split: option.splits)

lemma rows_totals:
  "dailyConfirmed (foldl (process_row pf d t) a rows) =
     dailyConfirmed a + sum_list (map row_confirmed (with_country rows))"
  "dailyDeaths (foldl (process_row pf d t) a rows) =
     dailyDeaths a + sum_list (map row_deaths (with_country rows))"
  "dailyRecovered (foldl (process_row pf d t) a rows) =
     dailyRecovered a + sum_list (map row_recovered (with_country rows))"
  "dailyActive (foldl (process_row pf d t) a rows) =
     dailyActive a + sum_list (map row_active (with_country rows))"
  by (induction rows arbitrary: a; simp add: process_row_totals with_country_def)+

lemma rows_data:
  "length (dataToInsert (foldl (process_row pf d t) a rows)) =
     length (dataToInsert a) + length (with_country rows)"
  by (induction rows arbitrary: a) (simp_all add: process_row_data with_country_def)

lemma rows_stats:
  "acc_confirmed (stats_of (countryStatsMap (foldl (process_row pf d t) a rows)) c) =
     acc_confirmed (stats_of (countryStatsMap a) c) + sum_list (map row_confirmed (of_country c rows))"
  "acc_deaths (stats_of (countryStatsMap (foldl (process_row pf d t) a rows)) c) =
     acc_deaths (stats_of (countryStatsMap a) c) + sum_list (map row_deaths (of_country c rows))"
  "acc_recovered (stats_of (countryStatsMap (foldl (process_row pf d t) a rows)) c) =
     acc_recovered (stats_of (countryStatsMap a) c) + sum_list (map row_recovered (of_country c rows))"
  "acc_active (stats_of (countryStatsMap (foldl (process_row pf d t) a rows)) c) =
     acc_active (stats_of (countryStatsMap a) c) + sum_list (map row_active (of_country c rows))"
  by (induction rows arbitrary: a; simp add: process_row_stats of_country_def)+

lemma rows_samples:
  "incidentRates (stats_of (countryStatsMap (foldl (process_row pf d t) a rows)) c) =
     incidentRates (stats_of (countryStatsMap a) c)
       @ filter (\<lambda>x. 0 < x) (map (row_rate pf) (of_country c rows))"
  "fatalityRatios (stats_of (countryStatsMap (foldl (process_row pf d t) a rows)) c) =
     fatalityRatios (stats_of (countryStatsMap a) c)
       @ filter (\<lambda>x. 0 < x) (map (row_ratio pf) (of_country c rows))"
  by (induction rows arbitrary: a; simp add: process_row_stats of_country_def)+

lemma unique_ok_snoc:
  "unique_ok (xs @ [r]) = (unique_ok xs \<and> \<not> list_ex (\<lambda>x. unique_conflict x r) xs)"
  by (induction xs) (auto simp: list_ex_iff)

lemma unique_ok_insert_skip: "unique_ok t \<Longrightarrow> unique_ok (insert_skip t r)"
  by (simp add: insert_skip_def unique_ok_snoc)

lemma unique_ok_createMany: "unique_ok t \<Longrightarrow> unique_ok (createMany b t)"
  by (induction b arbitrary: t) (simp_all add: createMany_def unique_ok_insert_skip)

lemma same_key_conflict:
  "provinceState d \<noteq> None \<Longrightarrow> admin2 d \<noteq> None \<Longrightarrow> same_key d x \<Longrightarrow> same_key d y \<Longrightarrow>
   unique_conflict x y"
  by (auto simp: same_key_def unique_conflict_def)

lemma unique_ok_at_most_one:
  assumes "unique_ok t" and "provinceState d \<noteq> None" and "admin2 d \<noteq> None"
  shows "length (filter (same_key d) t) \<le> 1"
  using assms(1)
proof (induction t)
  case Nil
  then show ?case by simp
next
  case (Cons x xs)
  show ?case
  proof (cases "same_key d x")
    case True
    have "filter (same_key d) xs = []"
    proof (rule ccontr)
      assume "filter (same_key d) xs \<noteq> []"
      then obtain y where y: "y \<in> set xs" "same_key d y"
        by (auto simp: filter_empty_conv)
      from same_key_conflict [OF assms(2,3) True y(2)] y(1) Cons.prems show False
        by (auto simp: list_ex_iff)
    qed
    with True show ?thesis by simp
  next
    case False
    with Cons show ?thesis by simp
  qed
qed

lemma process_rows_totals:
  "dailyConfirmed (process_rows pf d t m rows) = sum_list (map row_confirmed (with_country rows))"
  "dailyDeaths (process_rows pf d t m rows) = sum_list (map row_deaths (with_country rows))"
  "dailyRecovered (process_rows pf d t m rows) = sum_list (map row_recovered (with_country rows))"
  "dailyActive (process_rows pf d t m rows) = sum_list (map row_active (with_country rows))"
  by (simp_all add: process_rows_def rows_totals)

lemma process_rows_stats:
  "acc_confirmed (stats_of (countryStatsMap (process_rows pf d t m rows)) c) =
     acc_confirmed (stats_of m c) + sum_list (map row_confirmed (of_country c rows))"
  "acc_deaths (stats_of (countryStatsMap (process_rows pf d t m rows)) c) =
     acc_deaths (stats_of m c) + sum_list (map row_deaths (of_country c rows))"
  "acc_recovered (stats_of (countryStatsMap (process_rows pf d t m rows)) c) =
     acc_recovered (stats_of m c) + sum_list (map row_recovered (of_country c rows))"
  "acc_active (stats_of (countryStatsMap (process_rows pf d t m rows)) c) =
     acc_active (stats_of m c) + sum_list (map row_active (of_country c rows))"
  by (simp_all add: process_rows_def rows_stats)

lemma process_rows_samples:
  "incidentRates (stats_of (countryStatsMap (process_rows pf d t m rows)) c) =
     incidentRates (stats_of m c) @ filter (\<lambda>x. 0 < x) (map (row_rate pf) (of_country c rows))"
  "fatalityRatios (stats_of (countryStatsMap (process_rows pf d t m rows)) c) =
     fatalityRatios (stats_of m c) @ filter (\<lambda>x. 0 < x) (map (row_ratio pf) (of_country c rows))"
  by (simp_all add: process_rows_def rows_samples)

lemma process_file_ok_maps:
  assumes "file_input readCSVFile f = Some (d, t, rows)"
  shows "globalStatsByDate (process_file pf readCSVFile st f) =
           AList.update (split_T_0 t)
             \<lparr> date = d,
               totalConfirmed = sum_list (map row_confirmed (with_country rows)),
               totalDeaths = sum_list (map row_deaths (with_country rows)),
               totalRecovered = sum_list (map row_recovered (with_country rows)),
               totalActive = sum_list (map row_active (with_country rows)) \<rparr>
             (globalStatsByDate st)"
    and "countryStatsByDate (process_file pf readCSVFile st f) =
           AList.update (split_T_0 t)
             (countryStatsMap (process_rows pf d t (country_map_of (countryStatsByDate st) (split_T_0 t)) rows))
             (countryStatsByDate st)"
    and "dailyReport (database (process_file pf readCSVFile st f)) =
           createMany
             (dataToInsert (process_rows pf d t (country_map_of (countryStatsByDate st) (split_T_0 t)) rows))
             (dailyReport (database st))"
  using process_file_ok [OF assms, of pf st]
  by (auto simp: Let_def process_rows_totals country_map_of_def)

subsection \<open>Duplicate records\<close>

text \<open>
  C3. One file, read with report date \<open>d\<close>, ISO text \<open>t\<close> and records \<open>rows\<close>, on a
  table that satisfies its unique index. The global entry of the date is the sum over
  all records with a country, and the accumulator of each country grows by the sum over
  all records of that country: records are summed as a list, so two records that share
  (country, province, sub-region, report date) both count. The two maps are the same
  whatever the tables hold, so nothing the insert skips changes them. The table still
  satisfies its unique index afterwards, and of the rows that share a key whose province
  and sub-region are both present at most one is in it.
\<close>

theorem duplicates_aggregated_whatever_the_insert:
  assumes "file_input readCSVFile f = Some (d, t, rows)"
    and "unique_ok (dailyReport (database st))"
  shows "map_of (globalStatsByDate (process_file pf readCSVFile st f)) (split_T_0 t) =
           Some \<lparr> date = d,
                  totalConfirmed = sum_list (map row_confirmed (with_country rows)),
                  totalDeaths = sum_list (map row_deaths (with_country rows)),
                  totalRecovered = sum_list (map row_recovered (with_country rows)),
                  totalActive = sum_list (map row_active (with_country rows)) \<rparr>
       \<and> acc_confirmed (stats_of (country_map_of (countryStatsByDate (process_file pf readCSVFile st f)) (split_T_0 t)) c)
           = acc_confirmed (stats_of (country_map_of (countryStatsByDate st) (split_T_0 t)) c)
             + sum_list (map row_confirmed (of_country c rows))
       \<and> acc_deaths (stats_of (country_map_of (countryStatsByDate (process_file pf readCSVFile st f)) (split_T_0 t)) c)
           = acc_deaths (stats_of (country_map_of (countryStatsByDate st) (split_T_0 t)) c)
             + sum_list (map row_deaths (of_country c rows))
       \<and> acc_recovered (stats_of (country_map_of (countryStatsByDate (process_file pf readCSVFile st f)) (split_T_0 t)) c)
           = acc_recovered (stats_of (country_map_of (countryStatsByDate st) (split_T_0 t)) c)
             + sum_list (map row_recovered (of_country c rows))
       \<and> acc_active (stats_of (country_map_of (countryStatsByDate (process_file pf readCSVFile st f)) (split_T_0 t)) c)
           = acc_active (stats_of (country_map_of (countryStatsByDate st) (split_T_0 t)) c)
             + sum_list (map row_active (of_country c rows))
       \<and> globalStatsByDate (process_file pf readCSVFile (st \<lparr> database := db' \<rparr>) f)
           = globalStatsByDate (process_file pf readCSVFile st f)
       \<and> countryStatsByDate (process_file pf readCSVFile (st \<lparr> database := db' \<rparr>) f)
           = countryStatsByDate (process_file pf readCSVFile st f)
       \<and> unique_ok (dailyReport (database (process_file pf readCSVFile st f)))
       \<and> (provinceState x \<noteq> None \<and> admin2 x \<noteq> None \<longrightarrow>
            length (filter (same_key x) (dailyReport (database (process_file pf readCSVFile st f)))) \<le> 1)"
proof -
  note m = process_file_ok_maps [OF assms(1)]
  have g: "map_of (globalStatsByDate (process_file pf readCSVFile st f)) (split_T_0 t) =
           Some \<lparr> date = d,
                  totalConfirmed = sum_list (map row_confirmed (with_country rows)),
                  totalDeaths = sum_list (map row_deaths (with_country rows)),
                  totalRecovered = sum_list (map row_recovered (with_country rows)),
                  totalActive = sum_list (map row_active (with_country rows)) \<rparr>"
    by (simp add: m(1) update_conv')
  have k: "country_map_of (countryStatsByDate (process_file pf readCSVFile st f)) (split_T_0 t) =
           countryStatsMap (process_rows pf d t (country_map_of (countryStatsByDate st) (split_T_0 t)) rows)"
    by (simp add: m(2) [of pf st] country_map_of_def update_conv')
  have i: "globalStatsByDate (process_file pf readCSVFile (st \<lparr> database := db' \<rparr>) f)
           = globalStatsByDate (process_file pf readCSVFile st f)"
     "countryStatsByDate (process_file pf readCSVFile (st \<lparr> database := db' \<rparr>) f)
           = countryStatsByDate (process_file pf readCSVFile st f)"
    by (simp_all add: m(1,2))
  have u: "unique_ok (dailyReport (database (process_file pf readCSVFile st f)))"
    by (simp add: m(3) unique_ok_createMany [OF assms(2)])
  have o: "provinceState x \<noteq> None \<and> admin2 x \<noteq> None \<longrightarrow>
            length (filter (same_key x) (dailyReport (database (process_file pf readCSVFile st f)))) \<le> 1"
    using unique_ok_at_most_one [OF u] by blast
  from g i u o show ?thesis
    unfolding k by (simp add: process_rows_stats)
qed

theorem duplicates_aggregated_whatever_the_insert_witness:
  "file_input
     (map_of [(''03-15-2020.csv'',
        [map_of [(''Country_Region'', ''France''), (''Province_State'', ''IDF''), (''Admin2'', ''Paris''),
                 (''Confirmed'', ''10'')],
         map_of [(''Country_Region'', ''France''), (''Province_State'', ''IDF''), (''Admin2'', ''Paris''),
                 (''Confirmed'', ''20'')]])])
     ''03-15-2020.csv''
     = Some (UTCDate 2020 3 15, ''2020-03-15T00:00:00.000Z'',
        [map_of [(''Country_Region'', ''France''), (''Province_State'', ''IDF''), (''Admin2'', ''Paris''),
                 (''Confirmed'', ''10'')],
         map_of [(''Country_Region'', ''France''), (''Province_State'', ''IDF''), (''Admin2'', ''Paris''),
                 (''Confirmed'', ''20'')]])
   \<and> unique_ok (dailyReport (database (wipe (initial_state
         \<lparr> dailyReport = [], dailyGlobalStats = [], countryStats = [] \<rparr>))))
   \<and> map_of (globalStatsByDate (process_file (\<lambda>s. None)
         (map_of [(''03-15-2020.csv'',
            [map_of [(''Country_Region'', ''France''), (''Province_State'', ''IDF''), (''Admin2'', ''Paris''),
                     (''Confirmed'', ''10'')],
             map_of [(''Country_Region'', ''France''), (''Province_State'', ''IDF''), (''Admin2'', ''Paris''),
                     (''Confirmed'', ''20'')]])])
         (wipe (initial_state \<lparr> dailyReport = [], dailyGlobalStats = [], countryStats = [] \<rparr>))
         ''03-15-2020.csv'')) ''2020-03-15''
       = Some \<lparr> date = UTCDate 2020 3 15, totalConfirmed = 30, totalDeaths = 0,
                totalRecovered = 0, totalActive = 30 \<rparr>
   \<and> acc_confirmed (stats_of (country_map_of (countryStatsByDate (process_file (\<lambda>s. None)
         (map_of [(''03-15-2020.csv'',
            [map_of [(''Country_Region'', ''France''), (''Province_State'', ''IDF''), (''Admin2'', ''Paris''),
                     (''Confirmed'', ''10'')],
             map_of [(''Country_Region'', ''France''), (''Province_State'', ''IDF''), (''Admin2'', ''Paris''),
                     (''Confirmed'', ''20'')]])])
         (wipe (initial_state \<lparr> dailyReport = [], dailyGlobalStats = [], countryStats = [] \<rparr>))
         ''03-15-2020.csv'')) ''2020-03-15'') ''France'') = 30
   \<and> map confirmed (dailyReport (database (process_file (\<lambda>s. None)
         (map_of [(''03-15-2020.csv'',
            [map_of [(''Country_Region'', ''France''), (''Province_State'', ''IDF''), (''Admin2'', ''Paris''),
                     (''Confirmed'', ''10'')],
             map_of [(''Country_Region'', ''France''), (''Province_State'', ''IDF''), (''Admin2'', ''Paris''),
                     (''Confirmed'', ''20'')]])])
         (wipe (initial_state \<lparr> dailyReport = [], dailyGlobalStats = [], countryStats = [] \<rparr>))
         ''03-15-2020.csv''))) = [10]"
proof -
  let ?a = "map_of [(''Country_Region'', ''France''), (''Province_State'', ''IDF''), (''Admin2'', ''Paris''),
                 (''Confirmed'', ''10'')]"
  let ?b = "map_of [(''Country_Region'', ''France''), (''Province_State'', ''IDF''), (''Admin2'', ''Paris''),
                 (''Confirmed'', ''20'')]"
  let ?read = "map_of [(''03-15-2020.csv'', [?a, ?b])]"
  let ?st = "wipe (initial_state \<lparr> dailyReport = [], dailyGlobalStats = [], countryStats = [] \<rparr>)"
  have p: "parseDate ''03-15-2020.csv'' = Inr (UTCDate 2020 3 15)"
    by code_simp
  have i: "toISOString (UTCDate 2020 3 15) = Inr ''2020-03-15T00:00:00.000Z''"
    by code_simp
  have k: "split_T_0 ''2020-03-15T00:00:00.000Z'' = ''2020-03-15''"
    by code_simp
  have f: "file_input ?read ''03-15-2020.csv''
             = Some (UTCDate 2020 3 15, ''2020-03-15T00:00:00.000Z'', [?a, ?b])"
    by (simp add: file_input_def p i del: toISOString.simps)
  have u: "unique_ok (dailyReport (database ?st))"
    by (simp add: wipe_def initial_state_def)
  have e: "country_map_of (countryStatsByDate ?st) ''2020-03-15'' = []"
    by (simp add: wipe_def initial_state_def country_map_of_def)
  have s: "sum_list (map row_confirmed (with_country [?a, ?b])) = 30"
    "sum_list (map row_deaths (with_country [?a, ?b])) = 0"
    "sum_list (map row_recovered (with_country [?a, ?b])) = 0"
    "sum_list (map row_active (with_country [?a, ?b])) = 30"
    "sum_list (map row_confirmed (of_country ''France'' [?a, ?b])) = 30"
    by code_simp+
  have v: "map confirmed (dailyReport (database
             (process_file (\<lambda>s. None) ?read ?st ''03-15-2020.csv''))) = [10]"
    by code_simp
  from duplicates_aggregated_whatever_the_insert [OF f u, of "\<lambda>s. None" "''France''"]
  show ?thesis
    unfolding k s e using f u v by (simp add: stats_of_def new_CountryAcc_def)
qed

text \<open>
  C3, as the specification states it, fails on a key with a NULL: two records of France
  without province and sub-region share (country, province, sub-region, report date),
  and both detail rows are in the table after the run.
\<close>

theorem duplicates_with_null_key_both_persist:
  "map (\<lambda>d. (countryRegion d, provinceState d, admin2 d, reportDate d, confirmed d))
     (dailyReport (database (snd (importDailyReports (\<lambda>s. None) (+) (/) (Some [''03-15-2020.csv''])
        (map_of [(''03-15-2020.csv'',
           [map_of [(''Country_Region'', ''France''), (''Confirmed'', ''10'')],
            map_of [(''Country_Region'', ''France''), (''Confirmed'', ''20'')]])])
        \<lparr> dailyReport = [], dailyGlobalStats = [], countryStats = [] \<rparr>))))
   = [(''France'', None, None, UTCDate 2020 3 15, 10), (''France'', None, None, UTCDate 2020 3 15, 20)]"
  by code_simp

subsection \<open>Two files of one date\<close>

text \<open>
  C2. The global entry of a date is set, not added to: each file starts its four totals at
  0 and stores them under its date key. When two files resolve to the same report date
  (the pattern may sit anywhere in a name), the global-stats row of the date holds the
  totals of the file processed last, 2 here, while the country-stats row of the same
  date holds the sum over both files, 3, and both detail rows of the date are stored.
\<close>

theorem global_stats_keep_last_file_only:
  "map (\<lambda>g. (date g, totalConfirmed g, totalDeaths g, totalRecovered g, totalActive g))
     (dailyGlobalStats (database (snd (importDailyReports (\<lambda>s. None) (+) (/)
        (Some [''03-15-2020.csv'', ''copy-03-15-2020.csv''])
        (map_of [(''03-15-2020.csv'', [map_of [(''Country_Region'', ''US''), (''Confirmed'', ''1'')]]),
                 (''copy-03-15-2020.csv'', [map_of [(''Country_Region'', ''US''), (''Confirmed'', ''2'')]])])
        \<lparr> dailyReport = [], dailyGlobalStats = [], countryStats = [] \<rparr>))))
   = [(UTCDate 2020 3 15, 2, 0, 0, 2)]
   \<and> map (\<lambda>c. (cs_countryRegion c, cs_date c, cs_totalConfirmed c))
     (countryStats (database (snd (importDailyReports (\<lambda>s. None) (+) (/)
        (Some [''03-15-2020.csv'', ''copy-03-15-2020.csv''])
        (map_of [(''03-15-2020.csv'', [map_of [(''Country_Region'', ''US''), (''Confirmed'', ''1'')]]),
                 (''copy-03-15-2020.csv'', [map_of [(''Country_Region'', ''US''), (''Confirmed'', ''2'')]])])
        \<lparr> dailyReport = [], dailyGlobalStats = [], countryStats = [] \<rparr>))))
   = [(''US'', UTCDate 2020 3 15, 3)]
   \<and> map (\<lambda>d. (countryRegion d, reportDate d, confirmed d))
     (dailyReport (database (snd (importDailyReports (\<lambda>s. None) (+) (/)
        (Some [''03-15-2020.csv'', ''copy-03-15-2020.csv''])
        (map_of [(''03-15-2020.csv'', [map_of [(''Country_Region'', ''US''), (''Confirmed'', ''1'')]]),
                 (''copy-03-15-2020.csv'', [map_of [(''Country_Region'', ''US''), (''Confirmed'', ''2'')]])])
        \<lparr> dailyReport = [], dailyGlobalStats = [], countryStats = [] \<rparr>))))
   = [(''US'', UTCDate 2020 3 15, 1), (''US'', UTCDate 2020 3 15, 2)]"
  by code_simp

text \<open>The order in which the directory lists its entries does not matter.\<close>

lemma listing_order_irrelevant:
  assumes "distinct entries" and "distinct entries'" and "set entries = set entries'"
  shows "importDailyReports pf fadd fdiv (Some entries) readCSVFile db
           = importDailyReports pf fadd fdiv (Some entries') readCSVFile db"
proof -
  let ?P = "\<lambda>file. endsWith file ''.csv''"
  have "sort (filter ?P entries) = sort (filter ?P entries')"
    using assms by (intro sorted_distinct_set_unique) auto
  then show ?thesis
    by (simp add: importDailyReports_def list_csv_files_def)
qed

subsection \<open>Date keys and dates\<close>

lemma digit_char_facts:
  "is_digit (digit_char n)" "digit_val (digit_char n) = n mod 10" "digit_char n \<noteq> CHR ''T''"
proof -
  have "\<forall>k<10. is_digit (''0123456789'' ! k) \<and> digit_val (''0123456789'' ! k) = k
          \<and> ''0123456789'' ! k \<noteq> CHR ''T''"
    by code_simp
  moreover have "n mod 10 < 10"
    by simp
  ultimately show "is_digit (digit_char n)" "digit_val (digit_char n) = n mod 10"
    "digit_char n \<noteq> CHR ''T''"
    unfolding digit_char_def by blast+
qed

lemma days_in_month_bounds: "28 \<le> days_in_month y m \<and> days_in_month y m \<le> 31"
  by (simp add: days_in_month_def)

lemma rollover_valid:
  assumes "1 \<le> m" "m \<le> 12" "days_in_month y m < d" "d \<le> 31"
  shows "m + 1 \<le> 12 \<and> 1 \<le> d - days_in_month y m
         \<and> d - days_in_month y m \<le> days_in_month y (m + 1)"
proof -
  from assms(3,4) have s: "days_in_month y m < 31"
    by simp
  then have "m = 2 \<or> m = 4 \<or> m = 6 \<or> m = 9 \<or> m = 11"
    by (simp add: days_in_month_def split: if_splits)
  then have n: "days_in_month y (m + 1) = 31"
    by (auto simp: days_in_month_def)
  from \<open>m = 2 \<or> m = 4 \<or> m = 6 \<or> m = 9 \<or> m = 11\<close> have "m + 1 \<le> 12"
    by auto
  moreover from assms(3,4) days_in_month_bounds [of y m] have
    "1 \<le> d - days_in_month y m" "d - days_in_month y m \<le> 31"
    by simp_all
  ultimately show ?thesis
    using n by simp
qed

lemma make_day_valid:
  assumes "make_day y m d = UTCDate y' m' d'"
  shows "y' = y \<and> 1 \<le> m' \<and> m' \<le> 12 \<and> 1 \<le> d' \<and> d' \<le> days_in_month y' m'"
proof (cases "1 \<le> m \<and> m \<le> 12 \<and> 1 \<le> d \<and> d \<le> 31")
  case False
  then have "make_day y m d = InvalidDate"
    unfolding make_day_def by (rule if_not_P)
  with assms show ?thesis
    by simp
next
  case True
  show ?thesis
  proof (cases "d \<le> days_in_month y m")
    case le: True
    with True have "make_day y m d = UTCDate y m d"
      unfolding make_day_def by simp
    with True le assms show ?thesis
      by simp
  next
    case gt: False
    with True have "make_day y m d = UTCDate y (m + 1) (d - days_in_month y m)"
      unfolding make_day_def by simp
    with assms have e: "y' = y" "m' = m + 1" "d' = d - days_in_month y m"
      by auto
    from gt True rollover_valid [of m y d] show ?thesis
      unfolding e by simp
  qed
qed


lemma is_digit_val: "is_digit c \<Longrightarrow> digit_val c \<le> 9"
  unfolding is_digit_def digit_val_def less_eq_char_def by simp linarith

lemma digits_val_4:
  "digits_val [a, b, c, d] = 1000 * digit_val a + 100 * digit_val b + 10 * digit_val c + digit_val d"
  by (simp add: digits_val_def)

lemma digits_val_2: "digits_val [a, b] = 10 * digit_val a + digit_val b"
  by (simp add: digits_val_def)

lemma new_Date_valid:
  assumes "new_Date s = UTCDate y m d"
  shows "y < 10000 \<and> 1 \<le> m \<and> m \<le> 12 \<and> 1 \<le> d \<and> d \<le> days_in_month y m"
proof -
  from assms obtain y1 y2 y3 y4 h1 m1 m2 h2 d1 d2 where s: "s = [y1, y2, y3, y4, h1, m1, m2, h2, d1, d2]"
    by (cases s rule: new_Date.cases) simp_all
  from assms have dg: "is_digit y1 \<and> is_digit y2 \<and> is_digit y3 \<and> is_digit y4"
    unfolding s by (simp split: if_splits)
  from assms have mk: "make_day (digits_val [y1, y2, y3, y4]) (digits_val [m1, m2]) (digits_val [d1, d2])
               = UTCDate y m d"
    unfolding s by (simp split: if_splits)
  from dg have "digits_val [y1, y2, y3, y4] < 10000"
    using is_digit_val [of y1] is_digit_val [of y2] is_digit_val [of y3] is_digit_val [of y4]
    by (simp add: digits_val_4)
  with make_day_valid [OF mk] show ?thesis
    by blast
qed

lemma decimal_4:
  "1000 * (y div 1000) + 100 * (y div 100 mod 10) + 10 * (y div 10 mod 10) + y mod 10 = (y::nat)"
proof -
  have h: "y div 100 = y div 10 div 10" "y div 1000 = y div 100 div 10"
    using div_mult2_eq [of y 10 10] div_mult2_eq [of y 100 10] by simp_all
  have a: "y = 10 * (y div 10) + y mod 10"
    by simp
  have b: "y div 10 = 10 * (y div 100) + y div 10 mod 10"
    unfolding h by simp
  have c: "y div 100 = 10 * (y div 1000) + y div 100 mod 10"
    unfolding h(2) by simp
  from a b c show ?thesis
    by linarith
qed

lemma pad4_val: "y < 10000 \<Longrightarrow> digits_val (pad4 y) = y"
proof -
  assume "y < 10000"
  then have "y div 1000 mod 10 = y div 1000"
    by simp
  with decimal_4 [of y] show ?thesis
    by (simp add: pad4_def digits_val_4 digit_char_facts)
qed

lemma pad2_val: "m < 100 \<Longrightarrow> digits_val (pad2 m) = m"
proof -
  assume "m < 100"
  then have "m div 10 mod 10 = m div 10"
    by simp
  then show ?thesis
    by (simp add: pad2_def digits_val_2 digit_char_facts)
qed

lemma iso_roundtrip:
  assumes "y < 10000" "1 \<le> m" "m \<le> 12" "1 \<le> d" "d \<le> days_in_month y m"
    and "toISOString (UTCDate y m d) = Inr t"
  shows "new_Date (split_T_0 t) = UTCDate y m d"
proof -
  from assms(6) have t: "t = pad4 y @ ''-'' @ pad2 m @ ''-'' @ pad2 d @ ''T00:00:00.000Z''"
    by simp
  have k: "split_T_0 t = pad4 y @ ''-'' @ pad2 m @ ''-'' @ pad2 d"
    unfolding t split_T_0_def by (simp add: pad4_def pad2_def digit_char_facts)
  from assms days_in_month_bounds [of y m] have b: "m < 100" "d < 100" "d \<le> 31"
    by simp_all
  have v: "digits_val [digit_char (y div 1000), digit_char (y div 100), digit_char (y div 10), digit_char y] = y"
    "digits_val [digit_char (m div 10), digit_char m] = m"
    "digits_val [digit_char (d div 10), digit_char d] = d"
    using pad4_val [OF assms(1)] pad2_val [OF b(1)] pad2_val [OF b(2)]
    by (simp_all add: pad4_def pad2_def)
  have md: "make_day y m d = UTCDate y m d"
    unfolding make_day_def using assms(2-5) b(3) by simp
  show ?thesis
    unfolding k by (simp add: pad4_def pad2_def digit_char_facts v md)
qed

lemma file_input_roundtrip:
  assumes "file_input readCSVFile f = Some (d, t, rows)"
  shows "new_Date (split_T_0 t) = d"
proof -
  from assms have p: "parseDate f = Inr d" and i: "toISOString d = Inr t"
    by (auto simp: file_input_def split: sum.splits option.splits)
  from i obtain y m dd where d: "d = UTCDate y m dd"
    by (cases d) auto
  from p obtain s where "new_Date s = d"
    by (auto simp: parseDate_def split: option.splits)
  from new_Date_valid [OF this [unfolded d]] iso_roundtrip [of y m dd t] i d show ?thesis
    by simp
qed

subsection \<open>The samples of a country\<close>

lemma foldl_plus: "foldl (+) a xs = a + sum_list (xs :: real list)"
  by (induction xs arbitrary: a) simp_all

lemma mean_or_null_positive:
  "mean_or_null fadd fdiv (filter (\<lambda>x. 0 < x) xs) = mean_of_positive fadd fdiv xs"
  by (simp add: mean_or_null_def mean_of_positive_def Let_def)

text \<open>With exact addition and division it is the arithmetic mean.\<close>

lemma mean_of_positive_exact:
  "mean_of_positive (+) (/) xs =
     (if filter (\<lambda>x. 0 < x) xs = [] then None
      else Some (sum_list (filter (\<lambda>x. 0 < x) xs) / real (length (filter (\<lambda>x. 0 < x) xs))))"
  by (simp add: mean_of_positive_def Let_def foldl_plus)

lemma country_map_of_update:
  "country_map_of (AList.update k' m al) k = (if k = k' then m else country_map_of al k)"
  by (simp add: country_map_of_def update_conv')

text \<open>What one file adds to the samples of a country under a date key.\<close>

lemma process_file_samples:
  "incidentRates (stats_of (country_map_of (countryStatsByDate (process_file pf readCSVFile st f)) k) c) =
     incidentRates (stats_of (country_map_of (countryStatsByDate st) k) c)
       @ (case file_input readCSVFile f of
            None \<Rightarrow> []
          | Some (d, t, rows) \<Rightarrow>
              if split_T_0 t = k then filter (\<lambda>x. 0 < x) (map (row_rate pf) (of_country c rows))
              else [])"
  "fatalityRatios (stats_of (country_map_of (countryStatsByDate (process_file pf readCSVFile st f)) k) c) =
     fatalityRatios (stats_of (country_map_of (countryStatsByDate st) k) c)
       @ (case file_input readCSVFile f of
            None \<Rightarrow> []
          | Some (d, t, rows) \<Rightarrow>
              if split_T_0 t = k then filter (\<lambda>x. 0 < x) (map (row_ratio pf) (of_country c rows))
              else [])"
proof -
  show "incidentRates (stats_of (country_map_of (countryStatsByDate (process_file pf readCSVFile st f)) k) c) =
     incidentRates (stats_of (country_map_of (countryStatsByDate st) k) c)
       @ (case file_input readCSVFile f of
            None \<Rightarrow> []
          | Some (d, t, rows) \<Rightarrow>
              if split_T_0 t = k then filter (\<lambda>x. 0 < x) (map (row_rate pf) (of_country c rows))
              else [])"
  proof (cases "file_input readCSVFile f")
    case None
    from process_file_failed [OF None, of pf st] show ?thesis
      by (auto simp: None)
  next
    case (Some x)
    obtain d t rows where x: "x = (d, t, rows)"
      by (cases x) auto
    from process_file_ok_maps(2) [OF Some [unfolded x], of pf st] show ?thesis
      by (simp add: Some x country_map_of_update process_rows_samples)
  qed
  show "fatalityRatios (stats_of (country_map_of (countryStatsByDate (process_file pf readCSVFile st f)) k) c) =
     fatalityRatios (stats_of (country_map_of (countryStatsByDate st) k) c)
       @ (case file_input readCSVFile f of
            None \<Rightarrow> []
          | Some (d, t, rows) \<Rightarrow>
              if split_T_0 t = k then filter (\<lambda>x. 0 < x) (map (row_ratio pf) (of_country c rows))
              else [])"
  proof (cases "file_input readCSVFile f")
    case None
    from process_file_failed [OF None, of pf st] show ?thesis
      by (auto simp: None)
  next
    case (Some x)
    obtain d t rows where x: "x = (d, t, rows)"
      by (cases x) auto
    from process_file_ok_maps(2) [OF Some [unfolded x], of pf st] show ?thesis
      by (simp add: Some x country_map_of_update process_rows_samples)
  qed
qed

lemma files_samples:
  "incidentRates (stats_of (country_map_of
       (countryStatsByDate (foldl (process_file pf readCSVFile) st files)) k) c) =
     incidentRates (stats_of (country_map_of (countryStatsByDate st) k) c)
       @ concat (map (\<lambda>f. case file_input readCSVFile f of
            None \<Rightarrow> []
          | Some (d, t, rows) \<Rightarrow>
              if split_T_0 t = k then filter (\<lambda>x. 0 < x) (map (row_rate pf) (of_country c rows))
              else []) files)"
  "fatalityRatios (stats_of (country_map_of
       (countryStatsByDate (foldl (process_file pf readCSVFile) st files)) k) c) =
     fatalityRatios (stats_of (country_map_of (countryStatsByDate st) k) c)
       @ concat (map (\<lambda>f. case file_input readCSVFile f of
            None \<Rightarrow> []
          | Some (d, t, rows) \<Rightarrow>
              if split_T_0 t = k then filter (\<lambda>x. 0 < x) (map (row_ratio pf) (of_country c rows))
              else []) files)"
  by (induction files arbitrary: st; simp add: process_file_samples)+

lemma distinct_process_row:
  "distinct (map fst (countryStatsMap a)) \<Longrightarrow>
   distinct (map fst (countryStatsMap (process_row pf d t a row)))"
  by (simp add: process_row_def Let_def distinct_update split: option.splits)

lemma distinct_rows:
  "distinct (map fst (countryStatsMap a)) \<Longrightarrow>
   distinct (map fst (countryStatsMap (foldl (process_row pf d t) a rows)))"
  by (induction rows arbitrary: a) (simp_all add: distinct_process_row)

lemma distinct_process_rows:
  "distinct (map fst m) \<Longrightarrow> distinct (map fst (countryStatsMap (process_rows pf d t m rows)))"
  by (simp add: process_rows_def distinct_rows)

lemma list_all_update:
  "list_all P al \<Longrightarrow> P (k, v) \<Longrightarrow> list_all P (AList.update k v al)"
  by (induction al) auto

lemma distinct_maps_update:
  "distinct_maps al \<Longrightarrow> distinct (map fst m) \<Longrightarrow> distinct_maps (AList.update k m al)"
  by (simp add: distinct_maps_def distinct_update list_all_update)

lemma distinct_country_map_of:
  "distinct_maps al \<Longrightarrow> distinct (map fst (country_map_of al k))"
  by (auto simp: distinct_maps_def country_map_of_def list_all_iff dest!: map_of_SomeD
           split: option.splits)

lemma distinct_maps_process_file:
  assumes "distinct_maps (countryStatsByDate st)"
  shows "distinct_maps (countryStatsByDate (process_file pf readCSVFile st f))"
proof (cases "file_input readCSVFile f")
  case None
  from process_file_failed [OF None, of pf st] assms show ?thesis
    by auto
next
  case (Some x)
  obtain d t rows where x: "x = (d, t, rows)"
    by (cases x) auto
  from process_file_ok_maps(2) [OF Some [unfolded x], of pf st] assms show ?thesis
    by (simp add: distinct_maps_update distinct_process_rows distinct_country_map_of)
qed

lemma distinct_maps_files:
  "distinct_maps (countryStatsByDate st) \<Longrightarrow>
   distinct_maps (countryStatsByDate (foldl (process_file pf readCSVFile) st files))"
  by (induction files arbitrary: st) (simp_all add: distinct_maps_process_file)

lemma keys_process_file:
  assumes "map_of (countryStatsByDate (process_file pf readCSVFile st f)) k = Some m"
  shows "map_of (countryStatsByDate st) k \<noteq> None \<or> file_key readCSVFile f = Some k"
proof (cases "file_input readCSVFile f")
  case None
  from process_file_failed [OF None, of pf st] assms show ?thesis
    by auto
next
  case (Some x)
  obtain d t rows where x: "x = (d, t, rows)"
    by (cases x) auto
  from process_file_ok_maps(2) [OF Some [unfolded x], of pf st] assms show ?thesis
    by (auto simp: update_conv' file_key_def Some x split: if_splits)
qed

lemma keys_files:
  assumes "map_of (countryStatsByDate (foldl (process_file pf readCSVFile) st files)) k = Some m"
  shows "map_of (countryStatsByDate st) k \<noteq> None \<or> (\<exists>f\<in>set files. file_key readCSVFile f = Some k)"
  using assms
proof (induction files arbitrary: st)
  case Nil
  then show ?case by simp
next
  case (Cons f files)
  from Cons.IH [of "process_file pf readCSVFile st f"] Cons.prems
  have "map_of (countryStatsByDate (process_file pf readCSVFile st f)) k \<noteq> None
        \<or> (\<exists>g\<in>set files. file_key readCSVFile g = Some k)"
    by simp
  with keys_process_file [of pf readCSVFile st f k] show ?case
    by auto
qed

lemma country_rows_member:
  assumes "r \<in> set (country_rows fadd fdiv al)" and "distinct_maps al"
  shows "\<exists>k c. r = country_row fadd fdiv k c (stats_of (country_map_of al k) c) \<and> map_of al k \<noteq> None"
proof -
  from assms(1) obtain k m c s where
    km: "(k, m) \<in> set al" and cs: "(c, s) \<in> set m" and r: "r = country_row fadd fdiv k c s"
    by (auto simp: country_rows_def)
  from assms(2) km have a: "map_of al k = Some m"
    by (simp add: distinct_maps_def)
  from assms(2) km have "distinct (map fst m)"
    by (auto simp: distinct_maps_def list_all_iff)
  with cs have "map_of m c = Some s"
    by simp
  with a have "stats_of (country_map_of al k) c = s"
    by (simp add: stats_of_def country_map_of_def)
  with a r show ?thesis
    by (intro exI [of _ k] exI [of _ c]) simp
qed

lemma countryStats_process_file:
  "countryStats (database (process_file pf readCSVFile st f)) = countryStats (database st)"
proof (cases "file_input readCSVFile f")
  case None
  from process_file_failed [OF None, of pf st] show ?thesis
    by auto
next
  case (Some x)
  obtain d t rows where x: "x = (d, t, rows)"
    by (cases x) auto
  from process_file_ok [OF Some [unfolded x], of pf st] show ?thesis
    by (auto simp: Let_def)
qed

lemma countryStats_files:
  "countryStats (database (foldl (process_file pf readCSVFile) st files)) = countryStats (database st)"
  by (induction files arbitrary: st) (simp_all add: countryStats_process_file)

lemma import_countryStats:
  "countryStats (database (snd (importDailyReports pf fadd fdiv (Some entries) readCSVFile db))) =
     country_rows fadd fdiv (countryStatsByDate
       (foldl (process_file pf readCSVFile) (wipe (initial_state db)) (list_csv_files entries)))"
  by (simp add: import_database Let_def countryStats_files) (simp add: wipe_initial_state)

lemma file_input_iso:
  "file_input readCSVFile f = Some (d, t, rows) \<Longrightarrow> toISOString d = Inr t"
  by (auto simp: file_input_def split: sum.splits option.splits)

text \<open>Two files that are read have the same date key exactly when they have the same report date.\<close>

lemma key_date_iff:
  assumes "file_input readCSVFile f = Some (d, t, rows)"
    and "file_input readCSVFile g = Some (d', t', rows')"
  shows "(split_T_0 t' = split_T_0 t) = (d' = d)"
proof
  assume "split_T_0 t' = split_T_0 t"
  with file_input_roundtrip [OF assms(1)] file_input_roundtrip [OF assms(2)] show "d' = d"
    by simp
next
  assume "d' = d"
  with file_input_iso [OF assms(1)] file_input_iso [OF assms(2)] show "split_T_0 t' = split_T_0 t"
    by simp
qed

lemma samples_by_date:
  assumes "file_input readCSVFile f = Some (d, t, rows)"
  shows "concat (map (\<lambda>g. case file_input readCSVFile g of
            None \<Rightarrow> []
          | Some (d', t', rows') \<Rightarrow>
              if split_T_0 t' = split_T_0 t then filter P (map h (of_country c rows')) else []) files)
         = filter P (map h (records_for readCSVFile files d c))"
proof (induction files)
  case Nil
  then show ?case
    by (simp add: records_for_def)
next
  case (Cons g files)
  have "(case file_input readCSVFile g of
            None \<Rightarrow> []
          | Some (d', t', rows') \<Rightarrow>
              if split_T_0 t' = split_T_0 t then filter P (map h (of_country c rows')) else [])
        = filter P (map h (case file_input readCSVFile g of
                            None \<Rightarrow> []
                          | Some (d', t', rows') \<Rightarrow> if d' = d then of_country c rows' else []))"
  proof (cases "file_input readCSVFile g")
    case None
    then show ?thesis by simp
  next
    case (Some x)
    obtain d' t' rows' where x: "x = (d', t', rows')"
      by (cases x) auto
    from key_date_iff [OF assms Some [unfolded x]] show ?thesis
      by (simp add: Some x)
  qed
  with Cons.IH show ?case
    by (simp add: records_for_def)
qed

lemma distinct_maps_start: "distinct_maps (countryStatsByDate (wipe (initial_state db)))"
  by (simp add: wipe_initial_state distinct_maps_def)

text \<open>
  C6. Every country-stats row that a run writes has, as its incidence rate, the mean of
  the strictly positive incidence rates parsed from the records of its country in the
  files of its date, and no incidence rate when none of them is strictly positive; the
  same holds of its case-fatality ratio. The samples are exactly those, in the order the
  files and their records are processed; the mean is their sum from 0 in that order
  divided by their number, in the arithmetic of the platform, whatever it rounds to.
\<close>

theorem country_rates_are_means_of_positive_samples:
  assumes "r \<in> set (countryStats (database (snd (importDailyReports pf fadd fdiv (Some entries) readCSVFile db))))"
  shows "cs_incidentRate r =
           mean_of_positive fadd fdiv (map (row_rate pf)
             (records_for readCSVFile (list_csv_files entries) (cs_date r) (cs_countryRegion r)))
       \<and> cs_caseFatalityRatio r =
           mean_of_positive fadd fdiv (map (row_ratio pf)
             (records_for readCSVFile (list_csv_files entries) (cs_date r) (cs_countryRegion r)))"
proof -
  let ?files = "list_csv_files entries"
  let ?st0 = "wipe (initial_state db)"
  let ?al = "countryStatsByDate (foldl (process_file pf readCSVFile) ?st0 ?files)"
  have dm: "distinct_maps ?al"
    by (rule distinct_maps_files [OF distinct_maps_start])
  from assms have "r \<in> set (country_rows fadd fdiv ?al)"
    by (simp add: import_countryStats)
  from country_rows_member [OF this dm] obtain k c where
    r: "r = country_row fadd fdiv k c (stats_of (country_map_of ?al k) c)" and k: "map_of ?al k \<noteq> None"
    by blast
  from k obtain m where "map_of ?al k = Some m"
    by auto
  from keys_files [OF this] obtain f where "f \<in> set ?files" and "file_key readCSVFile f = Some k"
    by (auto simp: wipe_initial_state)
  then obtain d t rows where fi: "file_input readCSVFile f = Some (d, t, rows)"
    and kt: "k = split_T_0 t"
    by (auto simp: file_key_def split: option.splits)
  from file_input_roundtrip [OF fi] kt have nd: "new_Date k = d"
    by simp
  have e: "incidentRates (stats_of (country_map_of (countryStatsByDate ?st0) (split_T_0 t)) c) = []"
    "fatalityRatios (stats_of (country_map_of (countryStatsByDate ?st0) (split_T_0 t)) c) = []"
    by (simp_all add: wipe_initial_state country_map_of_def stats_of_def new_CountryAcc_def)
  have i: "incidentRates (stats_of (country_map_of ?al (split_T_0 t)) c) =
             filter (\<lambda>x. 0 < x) (map (row_rate pf) (records_for readCSVFile ?files d c))"
    using files_samples(1) [of pf readCSVFile ?st0 ?files "split_T_0 t" c]
      samples_by_date [OF fi, of "\<lambda>x. 0 < x" "row_rate pf" c ?files]
    by (simp only: e append_Nil)
  have j: "fatalityRatios (stats_of (country_map_of ?al (split_T_0 t)) c) =
             filter (\<lambda>x. 0 < x) (map (row_ratio pf) (records_for readCSVFile ?files d c))"
    using files_samples(2) [of pf readCSVFile ?st0 ?files "split_T_0 t" c]
      samples_by_date [OF fi, of "\<lambda>x. 0 < x" "row_ratio pf" c ?files]
    by (simp only: e append_Nil)
  show ?thesis
    unfolding r kt using nd [unfolded kt]
    by (simp add: country_row_def i j mean_or_null_positive)
qed

theorem country_rates_are_means_of_positive_samples_witness:
  "hd (countryStats (database (snd (importDailyReports
        (map_of [(''2.0'', 2), (''4.0'', 4), (''0'', 0)]) (+) (/) (Some [''03-15-2020.csv''])
        (map_of [(''03-15-2020.csv'',
           [map_of [(''Country_Region'', ''US''), (''Incident_Rate'', ''2.0'')],
            map_of [(''Country_Region'', ''US''), (''Incidence_Rate'', ''4.0'')],
            map_of [(''Country_Region'', ''US''), (''Incident_Rate'', ''0'')]])])
        \<lparr> dailyReport = [], dailyGlobalStats = [], countryStats = [] \<rparr>))))
     \<in> set (countryStats (database (snd (importDailyReports
        (map_of [(''2.0'', 2), (''4.0'', 4), (''0'', 0)]) (+) (/) (Some [''03-15-2020.csv''])
        (map_of [(''03-15-2020.csv'',
           [map_of [(''Country_Region'', ''US''), (''Incident_Rate'', ''2.0'')],
            map_of [(''Country_Region'', ''US''), (''Incidence_Rate'', ''4.0'')],
            map_of [(''Country_Region'', ''US''), (''Incident_Rate'', ''0'')]])])
        \<lparr> dailyReport = [], dailyGlobalStats = [], countryStats = [] \<rparr>))))
   \<and> cs_incidentRate (hd (countryStats (database (snd (importDailyReports
        (map_of [(''2.0'', 2), (''4.0'', 4), (''0'', 0)]) (+) (/) (Some [''03-15-2020.csv''])
        (map_of [(''03-15-2020.csv'',
           [map_of [(''Country_Region'', ''US''), (''Incident_Rate'', ''2.0'')],
            map_of [(''Country_Region'', ''US''), (''Incidence_Rate'', ''4.0'')],
            map_of [(''Country_Region'', ''US''), (''Incident_Rate'', ''0'')]])])
        \<lparr> dailyReport = [], dailyGlobalStats = [], countryStats = [] \<rparr>))))) = Some 3
   \<and> cs_caseFatalityRatio (hd (countryStats (database (snd (importDailyReports
        (map_of [(''2.0'', 2), (''4.0'', 4), (''0'', 0)]) (+) (/) (Some [''03-15-2020.csv''])
        (map_of [(''03-15-2020.csv'',
           [map_of [(''Country_Region'', ''US''), (''Incident_Rate'', ''2.0'')],
            map_of [(''Country_Region'', ''US''), (''Incidence_Rate'', ''4.0'')],
            map_of [(''Country_Region'', ''US''), (''Incident_Rate'', ''0'')]])])
        \<lparr> dailyReport = [], dailyGlobalStats = [], countryStats = [] \<rparr>))))) = None"
proof -
  let ?pf = "map_of [(''2.0'', 2::real), (''4.0'', 4), (''0'', 0)]"
  let ?r1 = "map_of [(''Country_Region'', ''US''), (''Incident_Rate'', ''2.0'')]"
  let ?r2 = "map_of [(''Country_Region'', ''US''), (''Incidence_Rate'', ''4.0'')]"
  let ?r3 = "map_of [(''Country_Region'', ''US''), (''Incident_Rate'', ''0'')]"
  let ?read = "map_of [(''03-15-2020.csv'', [?r1, ?r2, ?r3])]"
  let ?T = "countryStats (database (snd (importDailyReports ?pf (+) (/) (Some [''03-15-2020.csv'']) ?read
              \<lparr> dailyReport = [], dailyGlobalStats = [], countryStats = [] \<rparr>)))"
  have c: "map cs_countryRegion ?T = [''US'']"
    by code_simp
  have dt: "map cs_date ?T = [UTCDate 2020 3 15]"
    by code_simp
  from c have ne: "?T \<noteq> []"
    by auto
  then have m: "hd ?T \<in> set ?T"
    by simp
  from c dt ne have h: "cs_countryRegion (hd ?T) = ''US''" "cs_date (hd ?T) = UTCDate 2020 3 15"
    by (simp_all add: hd_map [symmetric])
  have l: "list_csv_files [''03-15-2020.csv''] = [''03-15-2020.csv'']"
    by code_simp
  have p: "parseDate ''03-15-2020.csv'' = Inr (UTCDate 2020 3 15)"
    by code_simp
  have i: "toISOString (UTCDate 2020 3 15) = Inr ''2020-03-15T00:00:00.000Z''"
    by code_simp
  have f: "file_input ?read ''03-15-2020.csv''
             = Some (UTCDate 2020 3 15, ''2020-03-15T00:00:00.000Z'', [?r1, ?r2, ?r3])"
    by (simp add: file_input_def p i del: toISOString.simps)
  have rs: "records_for ?read [''03-15-2020.csv''] (UTCDate 2020 3 15) ''US'' = [?r1, ?r2, ?r3]"
    unfolding records_for_def
    by (simp only: list.map f) (simp add: of_country_def row_country_def parseValue_def js_or_def)
  have v: "map (row_rate ?pf) [?r1, ?r2, ?r3] = [2, 4, 0]"
    "map (row_ratio ?pf) [?r1, ?r2, ?r3] = [0, 0, 0]"
    by (simp_all add: row_rate_def row_ratio_def parseNumber_def js_or_def)
  have mp: "mean_of_positive (+) (/) [2, 4, 0] = Some 3" "mean_of_positive (+) (/) [0, 0, 0] = None"
    by (simp_all add: mean_of_positive_def)
  from country_rates_are_means_of_positive_samples [OF m] m show ?thesis
    unfolding h l rs v mp by simp
qed

lemma global_process_file:
  "map_of (globalStatsByDate (process_file pf readCSVFile st f)) k =
     (case file_input readCSVFile f of
        None \<Rightarrow> map_of (globalStatsByDate st) k
      | Some (d, t, rows) \<Rightarrow>
          if split_T_0 t = k
          then Some \<lparr> date = d,
                      totalConfirmed = sum_list (map row_confirmed (with_country rows)),
                      totalDeaths = sum_list (map row_deaths (with_country rows)),
                      totalRecovered = sum_list (map row_recovered (with_country rows)),
                      totalActive = sum_list (map row_active (with_country rows)) \<rparr>
          else map_of (globalStatsByDate st) k)"
proof (cases "file_input readCSVFile f")
  case None
  from process_file_failed [OF None, of pf st] show ?thesis
    by (auto simp: None)
next
  case (Some x)
  obtain d t rows where x: "x = (d, t, rows)"
    by (cases x) auto
  from process_file_ok_maps(1) [OF Some [unfolded x], of pf st] show ?thesis
    by (auto simp: Some x update_conv')
qed

text \<open>
  After the loop, the global entry of a date key is that of the last file with that key:
  the totals of the records of that one file.
\<close>

lemma global_entry_is_last_file:
  "map_of (globalStatsByDate (foldl (process_file pf readCSVFile) st files)) k =
     (case find (\<lambda>f. file_key readCSVFile f = Some k) (rev files) of
        None \<Rightarrow> map_of (globalStatsByDate st) k
      | Some f \<Rightarrow>
          (case file_input readCSVFile f of
             None \<Rightarrow> None
           | Some (d, t, rows) \<Rightarrow>
               Some \<lparr> date = d,
                      totalConfirmed = sum_list (map row_confirmed (with_country rows)),
                      totalDeaths = sum_list (map row_deaths (with_country rows)),
                      totalRecovered = sum_list (map row_recovered (with_country rows)),
                      totalActive = sum_list (map row_active (with_country rows)) \<rparr>))"
proof (induction files rule: rev_induct)
  case Nil
  then show ?case by simp
next
  case (snoc f files)
  show ?case
  proof (cases "file_input readCSVFile f")
    case None
    with snoc show ?thesis
      by (simp add: global_process_file file_key_def)
  next
    case (Some x)
    obtain d t rows where x: "x = (d, t, rows)"
      by (cases x) auto
    with Some snoc show ?thesis
      by (simp add: global_process_file file_key_def)
  qed
qed

subsection \<open>The rows of the country table\<close>

lemma present_process_row:
  assumes "map_of (countryStatsMap a) c \<noteq> None \<or> row_country row = Some c"
  shows "map_of (countryStatsMap (process_row pf d t a row)) c \<noteq> None"
  using assms
  by (auto simp: process_row_def Let_def row_country_def update_conv' split: option.splits)

lemma present_rows:
  assumes "map_of (countryStatsMap a) c \<noteq> None \<or> of_country c rows \<noteq> []"
  shows "map_of (countryStatsMap (foldl (process_row pf d t) a rows)) c \<noteq> None"
  using assms
proof (induction rows arbitrary: a)
  case Nil
  then show ?case by (simp add: of_country_def)
next
  case (Cons row rows)
  have "map_of (countryStatsMap (process_row pf d t a row)) c \<noteq> None \<or> of_country c rows \<noteq> []"
    using Cons.prems present_process_row [of a c row pf d t]
    by (auto simp: of_country_def split: if_splits)
  from Cons.IH [OF this] show ?case
    by simp
qed

lemma present_process_rows:
  assumes "map_of m c \<noteq> None \<or> of_country c rows \<noteq> []"
  shows "map_of (countryStatsMap (process_rows pf d t m rows)) c \<noteq> None"
  unfolding process_rows_def using assms by (intro present_rows) simp

lemma present_process_file:
  assumes "map_of (country_map_of (countryStatsByDate st) k) c \<noteq> None \<or>
           (\<exists>d t rows. file_input readCSVFile f = Some (d, t, rows) \<and> split_T_0 t = k
              \<and> of_country c rows \<noteq> [])"
  shows "map_of (country_map_of (countryStatsByDate (process_file pf readCSVFile st f)) k) c \<noteq> None"
proof (cases "file_input readCSVFile f")
  case None
  from process_file_failed [OF None, of pf st] assms None show ?thesis
    by auto
next
  case (Some x)
  obtain d t rows where x: "x = (d, t, rows)"
    by (cases x) auto
  note m = process_file_ok_maps(2) [OF Some [unfolded x], of pf st]
  show ?thesis
  proof (cases "split_T_0 t = k")
    case True
    from assms Some x True have
      "map_of (country_map_of (countryStatsByDate st) (split_T_0 t)) c \<noteq> None \<or> of_country c rows \<noteq> []"
      by auto
    from present_process_rows [OF this, of pf d t] True show ?thesis
      by (simp add: m country_map_of_update)
  next
    case False
    with assms Some x show ?thesis
      by (simp add: m country_map_of_update)
  qed
qed

lemma present_files:
  assumes "map_of (country_map_of (countryStatsByDate st) k) c \<noteq> None \<or>
           (\<exists>f\<in>set files. \<exists>d t rows. file_input readCSVFile f = Some (d, t, rows)
              \<and> split_T_0 t = k \<and> of_country c rows \<noteq> [])"
  shows "map_of (country_map_of
           (countryStatsByDate (foldl (process_file pf readCSVFile) st files)) k) c \<noteq> None"
  using assms
proof (induction files arbitrary: st)
  case Nil
  then show ?case by simp
next
  case (Cons f files)
  have "map_of (country_map_of (countryStatsByDate (process_file pf readCSVFile st f)) k) c \<noteq> None \<or>
        (\<exists>g\<in>set files. \<exists>d t rows. file_input readCSVFile g = Some (d, t, rows)
              \<and> split_T_0 t = k \<and> of_country c rows \<noteq> [])"
    using Cons.prems present_process_file [of st k c readCSVFile f pf]
    by auto
  from Cons.IH [OF this] show ?case
    by simp
qed

lemma country_rows_present:
  assumes "map_of (country_map_of al k) c \<noteq> None"
  shows "\<exists>r\<in>set (country_rows fadd fdiv al). cs_countryRegion r = c \<and> cs_date r = new_Date k"
proof -
  from assms obtain m s where "map_of al k = Some m" and "map_of m c = Some s"
    by (auto simp: country_map_of_def split: option.splits)
  then have "(k, m) \<in> set al" and "(c, s) \<in> set m"
    by (auto dest: map_of_SomeD)
  then have "country_row fadd fdiv k c s \<in> set (country_rows fadd fdiv al)"
    by (force simp: country_rows_def)
  then show ?thesis
    by (rule bexI [rotated]) (simp add: country_row_def)
qed

text \<open>
  Every country that has a record in a file that is read has a country-stats row for the
  report date of the file.
\<close>

lemma country_row_exists:
  assumes "f \<in> set entries" and "endsWith f ''.csv''"
    and "file_input readCSVFile f = Some (d, t, rows)" and "of_country c rows \<noteq> []"
  shows "\<exists>r\<in>set (countryStats (database (snd (importDailyReports pf fadd fdiv (Some entries) readCSVFile db)))).
           cs_countryRegion r = c \<and> cs_date r = d"
proof -
  from assms(1,2) have "f \<in> set (list_csv_files entries)"
    by (rule list_csv_files_member)
  with assms(3,4) have
    "map_of (country_map_of (countryStatsByDate
        (foldl (process_file pf readCSVFile) (wipe (initial_state db)) (list_csv_files entries)))
        (split_T_0 t)) c \<noteq> None"
    by (intro present_files) blast
  from country_rows_present [OF this] file_input_roundtrip [OF assms(3)] show ?thesis
    by (simp add: import_countryStats)
qed

end
